theory Spec2Isabelle
  imports Complex_Main "HOL-Library.Product_Lexorder"
begin

section \<open>Values, errors and calendar dates\<close>

text \<open>
  The notebook \<^verbatim>\<open>Data Scrubbing and Preprocessing.ipynb\<close> works on pandas columns of
  numbers. A cell of such a column is a number or NaN: it is modelled as \<open>rat option\<close>,
  \<open>None\<close> being NaN. Arithmetic on numbers is exact here (rationals stand for the
  floats), and NaN is absorbing, as in IEEE arithmetic. A cell that is zero is the
  positive zero.

  The exceptions of the Python code are values: \<open>KeyError\<close> for a label that an index
  does not hold, \<open>ValueError\<close> for \<^verbatim>\<open>min\<close> of an empty sequence and for
  \<^verbatim>\<open>datetime.date\<close> called with a day that does not exist, and \<open>NaTError\<close> for
  \<^verbatim>\<open>datetime.date\<close> called with the fields of the null timestamp \<^verbatim>\<open>NaT\<close>.
\<close>

type_synonym fval = "rat option"

datatype error = KeyError | ValueError | NaTError

text \<open>
  A date is the triple (year, month, day); the order of \<^verbatim>\<open>datetime.date\<close> is the
  lexicographic order of the triple.
\<close>

type_synonym date = "int \<times> int \<times> int"

definition year :: "date \<Rightarrow> int" where
  "year d = fst d"

definition month :: "date \<Rightarrow> int" where
  "month d = fst (snd d)"

definition day :: "date \<Rightarrow> int" where
  "day d = snd (snd d)"

definition is_leap :: "int \<Rightarrow> bool" where
  "is_leap y = (y mod 4 = 0 \<and> (y mod 100 \<noteq> 0 \<or> y mod 400 = 0))"

definition days_in_month :: "int \<Rightarrow> int \<Rightarrow> int" where
  "days_in_month y m =
     (if m = 2 then (if is_leap y then 29 else 28)
      else if m = 4 \<or> m = 6 \<or> m = 9 \<or> m = 11 then 30 else 31)"

text \<open>
  \<^verbatim>\<open>dt.date(y, m, d)\<close>: the constructor of the standard library raises ValueError
  unless \<open>1 \<le> y \<le> 9999\<close>, \<open>1 \<le> m \<le> 12\<close> and \<open>d\<close> is a day of that month.
\<close>

definition dt_date :: "int \<Rightarrow> int \<Rightarrow> int \<Rightarrow> error + date" where
  "dt_date y m d =
     (if 1 \<le> y \<and> y \<le> 9999 \<and> 1 \<le> m \<and> m \<le> 12 \<and> 1 \<le> d \<and> d \<le> days_in_month y m
      then Inr (y, m, d) else Inl ValueError)"

text \<open>The dates that exist: the values a timestamp of the tables can hold.\<close>

definition valid_date :: "date \<Rightarrow> bool" where
  "valid_date d = (dt_date (year d) (month d) (day d) = Inr d)"

text \<open>The day after a date (used to state the boundary of the response label).\<close>

definition next_day :: "date \<Rightarrow> date" where
  "next_day d =
     (if day d < days_in_month (year d) (month d) then (year d, month d, day d + 1)
      else if month d < 12 then (year d, month d + 1, 1)
      else (year d + 1, 1, 1))"

section \<open>The loan table and the bucketed imputation\<close>

text \<open>
  A row of \<^verbatim>\<open>Log_Orig\<close>, the eight columns selected from the origination file;
  \<^verbatim>\<open>ORIG_DTE\<close> is held as the timestamp that
  \<^verbatim>\<open>pd.to_datetime(.., format='%m/%Y')\<close> gives (the first day of the month). The index
  label of a row is its position (the default index of \<^verbatim>\<open>read_csv\<close>).
\<close>

record loan =
  LOAN_ID :: int
  ORIG_AMT :: fval
  ORIG_RT :: fval
  ORIG_DTE :: date
  OCLTV :: fval
  DTI :: fval
  CSCORE_B :: fval
  STATE :: string

text \<open>
  A column of a table has a dtype. \<^verbatim>\<open>read_csv\<close> gives a numeric column the dtype
  \<^verbatim>\<open>int64\<close> when every cell is present and written as a whole number, and
  \<^verbatim>\<open>float64\<close> otherwise; \<^verbatim>\<open>fillna\<close> finds nothing to fill in an
  \<^verbatim>\<open>int64\<close> column, so the assignments of the imputation keep the dtype of a
  column. The table carries the dtypes of the two columns that \<open>Buckets\<close> divides.
\<close>

datatype dtype = int64 | float64

record frame =
  rows :: "loan list"
  OCLTV_dtype :: dtype
  CSCORE_B_dtype :: dtype

definition whole :: "fval \<Rightarrow> bool" where
  "whole c = (case c of None \<Rightarrow> False | Some x \<Rightarrow> x = of_int \<lfloor>x\<rfloor>)"

definition wf_frame :: "frame \<Rightarrow> bool" where
  "wf_frame t =
     ((OCLTV_dtype t = float64 \<or> list_all whole (map OCLTV (rows t))) \<and>
      (CSCORE_B_dtype t = float64 \<or> list_all whole (map CSCORE_B (rows t))))"

text \<open>
  The kernel of the notebook is Python 2 and no cell imports \<^verbatim>\<open>division\<close> from
  \<^verbatim>\<open>__future__\<close>: \<^verbatim>\<open>cell / 20\<close> is the floor division when the cell is an
  \<^verbatim>\<open>int64\<close> and the true division when it is a \<^verbatim>\<open>float64\<close>.
\<close>

definition py_div :: "dtype \<Rightarrow> fval \<Rightarrow> int \<Rightarrow> fval" where
  "py_div dt c k =
     (case dt of
        int64 \<Rightarrow> map_option (\<lambda>x. of_int \<lfloor>x / of_int k\<rfloor>) c
      | float64 \<Rightarrow> map_option (\<lambda>x. x / of_int k) c)"

text \<open>
  \<^verbatim>\<open>round(x, 0)\<close> of Python 2 returns a float: NaN for NaN, and otherwise the whole
  number nearest to \<open>x\<close>, a half being rounded away from zero; a negative \<open>x\<close> above
  \<open>-1/2\<close> gives the negative zero. Multiplying by a positive constant keeps NaN and
  the negative zero.
\<close>

datatype pyfloat = NaN | NegZero | Whole int

definition round_half_away :: "rat \<Rightarrow> int" where
  "round_half_away x = (if 0 \<le> x then \<lfloor>x + 1 / 2\<rfloor> else - \<lfloor>- x + 1 / 2\<rfloor>)"

definition py_round :: "fval \<Rightarrow> pyfloat" where
  "py_round c =
     (case c of
        None \<Rightarrow> NaN
      | Some x \<Rightarrow> if - (1 / 2) < x \<and> x < 0 then NegZero else Whole (round_half_away x))"

definition py_times :: "pyfloat \<Rightarrow> int \<Rightarrow> pyfloat" where
  "py_times f k = (case f of NaN \<Rightarrow> NaN | NegZero \<Rightarrow> NegZero | Whole n \<Rightarrow> Whole (n * k))"

text \<open>
  \<^verbatim>\<open>"{}".format(f)\<close> of a float is \<^verbatim>\<open>str(f)\<close>, which in Python 2 prints 12
  significant digits: \<^verbatim>\<open>nan\<close>, \<^verbatim>\<open>-0.0\<close>, \<^verbatim>\<open>40.0\<close>, \<^verbatim>\<open>1e+12\<close>. The text of
  a whole number is determined by the number rounded to 12 significant digits (a tie
  goes to the even digit), and differs for different such numbers. A text is modelled
  by what determines it.
\<close>

datatype ftext = Tnan | Tnegzero | Tnum int

function ndigits :: "int \<Rightarrow> nat" where
  "ndigits a = (if a < 10 then 1 else Suc (ndigits (a div 10)))"
  by pat_completeness auto
termination
  by (relation "measure nat") auto

declare ndigits.simps [simp del]

definition round12 :: "int \<Rightarrow> int" where
  "round12 n =
     (let a = \<bar>n\<bar>; d = ndigits a
      in if d \<le> 12 then n
         else
           (let p = 10 ^ (d - 12); q = a div p; r = a mod p;
                q' = (if 2 * r < p then q else if p < 2 * r then q + 1
                      else if even q then q else q + 1)
            in sgn n * (q' * p)))"

definition py_str :: "pyfloat \<Rightarrow> ftext" where
  "py_str f = (case f of NaN \<Rightarrow> Tnan | NegZero \<Rightarrow> Tnegzero | Whole n \<Rightarrow> Tnum (round12 n))"

text \<open>Subtraction of two cells: NaN if either is NaN.\<close>

definition fsub :: "fval \<Rightarrow> fval \<Rightarrow> fval" where
  "fsub a b = (case a of None \<Rightarrow> None | Some x \<Rightarrow> (case b of None \<Rightarrow> None | Some y \<Rightarrow> Some (x - y)))"

text \<open>
  \<^verbatim>\<open>Series.mean()\<close> skips NaN and is NaN when nothing is left;
  \<^verbatim>\<open>Series.fillna(m)\<close> replaces each NaN by \<open>m\<close>.
\<close>

definition dropna :: "fval list \<Rightarrow> rat list" where
  "dropna xs = concat (map (\<lambda>x. case x of None \<Rightarrow> [] | Some v \<Rightarrow> [v]) xs)"

definition mean :: "fval list \<Rightarrow> fval" where
  "mean xs = (let vs = dropna xs in if vs = [] then None else Some (sum_list vs / of_nat (length vs)))"

definition fillna :: "fval list \<Rightarrow> fval \<Rightarrow> fval list" where
  "fillna xs m = map (\<lambda>x. case x of None \<Rightarrow> m | Some v \<Rightarrow> Some v) xs"

text \<open>
  The bucket key. The source formats two floats into a string,
  \<^verbatim>\<open>"OCLTV-{}/Rate-{}"\<close> or \<^verbatim>\<open>"FICO-{}/Rate-{}"\<close>; two such strings are equal exactly
  when they have the same prefix and the same two texts. The key is modelled by the
  prefix and the two texts.
\<close>

datatype bucket = OCLTV_Rate ftext ftext | FICO_Rate ftext ftext

text \<open>
  \<^verbatim>\<open>
  def Buckets(table,x, fillVar):
      if (fillVar == 'CSCORE'):
          (OCLTV,Rate) = (round(table['OCLTV'].loc[x]/20,0)*20, round(table['ORIG_RT'].loc[x],0))
          if np.isnan(OCLTV): OCLTV = round(table['OCLTV'].mean()/20,0)*20
          return "OCLTV-{}/Rate-{}".format(OCLTV,Rate)
      elif (fillVar == 'DTI') or (fillVar == 'OCLTV'):
          (FICO,Rate) = (round(table['CSCORE_B'].loc[x]/50,0)*50, round(table['ORIG_RT'].loc[x],0))
          if np.isnan(FICO): FICO = round(table['CSCORE_B'].mean()/50,0)*50
          return "FICO-{}/Rate-{}".format(FICO,Rate)
  \<close>
  \<^verbatim>\<open>.loc[x]\<close> raises KeyError at a label that the table does not have; any other
  \<open>fillVar\<close> falls through and returns Python's \<^verbatim>\<open>None\<close> (here \<open>Inr None\<close>). The
  cell is divided as its column's dtype says; the mean of a column is a float whatever
  the dtype, and \<^verbatim>\<open>round\<close> does not depend on the dtype of its argument.
\<close>

definition Buckets :: "frame \<Rightarrow> nat \<Rightarrow> string \<Rightarrow> error + bucket option" where
  "Buckets table x fillVar =
     (if fillVar = ''CSCORE'' then
        (if length (rows table) \<le> x then Inl KeyError
         else
           (let OCLTV0 = py_times (py_round (py_div (OCLTV_dtype table) (OCLTV (rows table ! x)) 20)) 20;
                Rate = py_round (ORIG_RT (rows table ! x));
                OCLTV1 = (if OCLTV0 = NaN
                          then py_times (py_round (py_div float64 (mean (map OCLTV (rows table))) 20)) 20
                          else OCLTV0)
            in Inr (Some (OCLTV_Rate (py_str OCLTV1) (py_str Rate)))))
      else if fillVar = ''DTI'' \<or> fillVar = ''OCLTV'' then
        (if length (rows table) \<le> x then Inl KeyError
         else
           (let FICO0 = py_times (py_round (py_div (CSCORE_B_dtype table) (CSCORE_B (rows table ! x)) 50)) 50;
                Rate = py_round (ORIG_RT (rows table ! x));
                FICO1 = (if FICO0 = NaN
                         then py_times (py_round (py_div float64 (mean (map CSCORE_B (rows table))) 50)) 50
                         else FICO0)
            in Inr (Some (FICO_Rate (py_str FICO1) (py_str Rate)))))
      else Inr None)"

text \<open>
  \<^verbatim>\<open>map(f, xs)\<close> of Python 2 is eager: it calls \<open>f\<close> on each element in order and the
  first exception ends it. The same holds for the key function that \<^verbatim>\<open>groupby\<close> calls
  on each index label.
\<close>

fun py_map :: "('a \<Rightarrow> error + 'b) \<Rightarrow> 'a list \<Rightarrow> error + 'b list" where
  "py_map f [] = Inr []"
| "py_map f (x # xs) =
     (case f x of
        Inl e \<Rightarrow> Inl e
      | Inr y \<Rightarrow> (case py_map f xs of Inl e \<Rightarrow> Inl e | Inr ys \<Rightarrow> Inr (y # ys)))"

text \<open>
  \<^verbatim>\<open>fill_mean = lambda x: x.fillna(x.mean())\<close>, applied to the cells of one group.
\<close>

definition fill_mean :: "fval list \<Rightarrow> fval list" where
  "fill_mean x = fillna x (mean x)"

text \<open>
  \<^verbatim>\<open>groupby(key)[col].apply(f)\<close>: the rows with equal keys form a group (in table
  order), \<open>f\<close> maps the cells of each group, and the results are put back at the rows
  they came from. For row \<open>i\<close> the group is the list of rows with the key of \<open>i\<close>, and
  the place of \<open>i\<close> in it is the number of earlier rows with that key.
\<close>

definition groupby_apply :: "'k list \<Rightarrow> fval list \<Rightarrow> (fval list \<Rightarrow> fval list) \<Rightarrow> fval list" where
  "groupby_apply keys col f =
     map (\<lambda>i. f (map (\<lambda>j. col ! j) (filter (\<lambda>j. keys ! j = keys ! i) [0..<length col]))
               ! length (filter (\<lambda>j. keys ! j = keys ! i) [0..<i]))
         [0..<length col]"

text \<open>
  The three bucketed passes, in the order of the source; each reads the table as the
  pass before left it:
  \<^verbatim>\<open>
  Log_Orig['CSCORE_B'] = Log_Orig.groupby(lambda x: Buckets(Log_Orig, x, 'CSCORE'))['CSCORE_B'].apply(fill_mean)
  Log_Orig['DTI'] = Log_Orig.groupby(lambda x: Buckets(Log_Orig, x, 'DTI'))['DTI'].apply(fill_mean)
  Log_Orig['OCLTV'] = Log_Orig.groupby(lambda x: Buckets(Log_Orig, x, 'OCLTV'))['OCLTV'].apply(fill_mean)
  \<close>
\<close>

definition fill_CSCORE :: "frame \<Rightarrow> error + frame" where
  "fill_CSCORE t =
     (case py_map (\<lambda>x. Buckets t x ''CSCORE'') [0..<length (rows t)] of
        Inl e \<Rightarrow> Inl e
      | Inr keys \<Rightarrow>
          Inr (t\<lparr>rows := map (\<lambda>(r, v). r\<lparr>CSCORE_B := v\<rparr>)
                   (zip (rows t) (groupby_apply keys (map CSCORE_B (rows t)) fill_mean))\<rparr>))"

definition fill_DTI :: "frame \<Rightarrow> error + frame" where
  "fill_DTI t =
     (case py_map (\<lambda>x. Buckets t x ''DTI'') [0..<length (rows t)] of
        Inl e \<Rightarrow> Inl e
      | Inr keys \<Rightarrow>
          Inr (t\<lparr>rows := map (\<lambda>(r, v). r\<lparr>DTI := v\<rparr>)
                   (zip (rows t) (groupby_apply keys (map DTI (rows t)) fill_mean))\<rparr>))"

definition fill_OCLTV :: "frame \<Rightarrow> error + frame" where
  "fill_OCLTV t =
     (case py_map (\<lambda>x. Buckets t x ''OCLTV'') [0..<length (rows t)] of
        Inl e \<Rightarrow> Inl e
      | Inr keys \<Rightarrow>
          Inr (t\<lparr>rows := map (\<lambda>(r, v). r\<lparr>OCLTV := v\<rparr>)
                   (zip (rows t) (groupby_apply keys (map OCLTV (rows t)) fill_mean))\<rparr>))"

text \<open>
  The pass with the sample mean, the only one outside the buckets:
  \<^verbatim>\<open>Log_Orig['DTI'] = Log_Orig['DTI'].fillna(Log_Orig['DTI'].mean())\<close>
\<close>

definition fill_DTI_global :: "frame \<Rightarrow> frame" where
  "fill_DTI_global t =
     t\<lparr>rows := map (\<lambda>(r, v). r\<lparr>DTI := v\<rparr>)
                    (zip (rows t) (fillna (map DTI (rows t)) (mean (map DTI (rows t)))))\<rparr>"

text \<open>The whole of section 1 of the notebook.\<close>

definition impute :: "frame \<Rightarrow> error + frame" where
  "impute t =
     (case fill_CSCORE t of
        Inl e \<Rightarrow> Inl e
      | Inr t1 \<Rightarrow>
         (case fill_DTI t1 of
            Inl e \<Rightarrow> Inl e
          | Inr t2 \<Rightarrow>
             (case fill_OCLTV t2 of
                Inl e \<Rightarrow> Inl e
              | Inr t3 \<Rightarrow> Inr (fill_DTI_global t3))))"

text \<open>
  Notions used to state what the passes do. \<open>present col\<close> are the numbers of a
  column, \<open>bucket_mates t fillVar i\<close> the rows of the table with the bucket key of row
  \<open>i\<close>, and \<open>bucket_values\<close> the numbers of the target field among them.
\<close>

definition present :: "fval list \<Rightarrow> rat list" where
  "present col = map the (filter (\<lambda>c. c \<noteq> None) col)"

definition bucket_mates :: "frame \<Rightarrow> string \<Rightarrow> nat \<Rightarrow> nat list" where
  "bucket_mates t fillVar i =
     filter (\<lambda>j. Buckets t j fillVar = Buckets t i fillVar) [0..<length (rows t)]"

definition bucket_values :: "frame \<Rightarrow> string \<Rightarrow> (loan \<Rightarrow> fval) \<Rightarrow> nat \<Rightarrow> rat list" where
  "bucket_values t fillVar field i =
     present (map (\<lambda>j. field (rows t ! j)) (bucket_mates t fillVar i))"

text \<open>
  \<open>imputed_cell\<close> is the cell a bucketed pass is expected to write in row \<open>i\<close>: the
  cell itself when it holds a number, the mean of the bucket otherwise.
\<close>

definition imputed_cell :: "frame \<Rightarrow> string \<Rightarrow> (loan \<Rightarrow> fval) \<Rightarrow> nat \<Rightarrow> fval" where
  "imputed_cell t fillVar field i =
     (case field (rows t ! i) of
        None \<Rightarrow> mean (map (\<lambda>j. field (rows t ! j)) (bucket_mates t fillVar i))
      | Some v \<Rightarrow> Some v)"

section \<open>Reference series, covariates and window features\<close>

text \<open>
  The benchmark-rate table \<^verbatim>\<open>Rates\<close>, indexed by date, is the list of its rows (date,
  rate) in index order. The table \<^verbatim>\<open>HPI\<close> has one column per state over one date
  index: it is a map from the state code to the series of that column. The rates and
  the index values are \<^verbatim>\<open>float64\<close> columns, so a cell is a number or NaN. The index of
  a reference series is increasing and holds no date twice; \<open>same_month\<close> says that two
  dates lie in one calendar month.
\<close>

type_synonym series = "(date \<times> fval) list"

definition wf_series :: "series \<Rightarrow> bool" where
  "wf_series s = sorted_wrt (<) (map fst s)"

definition same_month :: "date \<Rightarrow> date \<Rightarrow> bool" where
  "same_month d d' = (year d = year d' \<and> month d = month d')"

text \<open>
  \<^verbatim>\<open>s.ix[d]\<close>, the cell at the label \<open>d\<close>: KeyError if the index does not hold it.
  \<^verbatim>\<open>s.ix[a:b]\<close>, the label slice: the cells whose label lies in the closed range.
  \<^verbatim>\<open>min(xs)\<close> raises ValueError on an empty sequence; otherwise it starts from the
  first element and takes each later one that is less than what it holds, and no
  comparison with NaN is true.
\<close>

definition ix_point :: "series \<Rightarrow> date \<Rightarrow> error + fval" where
  "ix_point s d = (case map_of s d of None \<Rightarrow> Inl KeyError | Some v \<Rightarrow> Inr v)"

definition ix_slice :: "series \<Rightarrow> date \<Rightarrow> date \<Rightarrow> fval list" where
  "ix_slice s a b = map snd (filter (\<lambda>kv. a \<le> fst kv \<and> fst kv \<le> b) s)"

definition py_lt :: "fval \<Rightarrow> fval \<Rightarrow> bool" where
  "py_lt a b = (case a of None \<Rightarrow> False | Some x \<Rightarrow> (case b of None \<Rightarrow> False | Some y \<Rightarrow> x < y))"

definition py_min :: "fval list \<Rightarrow> error + fval" where
  "py_min xs =
     (case xs of
        [] \<Rightarrow> Inl ValueError
      | x # ys \<Rightarrow> Inr (foldl (\<lambda>least item. if py_lt item least then item else least) x ys))"

text \<open>
  Division of two float scalars of numpy: NaN if either is NaN; a zero divisor gives no
  exception but a non-finite float, which is \<open>None\<close> here like NaN.
\<close>

definition fdiv :: "fval \<Rightarrow> fval \<Rightarrow> fval" where
  "fdiv a b =
     (case a of
        None \<Rightarrow> None
      | Some x \<Rightarrow> (case b of None \<Rightarrow> None | Some y \<Rightarrow> if y = 0 then None else Some (x / y)))"

text \<open>
  The covariates of section 2: the flag \<^verbatim>\<open>CA-FL\<close>, the left merge with \<^verbatim>\<open>Rates\<close>
  on \<^verbatim>\<open>ORIG_DTE\<close> (whose rate column is renamed \<^verbatim>\<open>ORIG_BENCHMK\<close>) and
  \<^verbatim>\<open>SATO\<close>:
  \<^verbatim>\<open>
  Log_Orig["CA-FL"] = np.where(Log_Orig["STATE"].isin(["CA","FL"]),1,0)
  Log_Orig = Log_Orig.merge(Rates, how='left', left_on='ORIG_DTE', right_index=True)
  Log_Orig.rename(columns={'Rate':'ORIG_BENCHMK'}, inplace=True)
  Log_Orig['SATO'] = Log_Orig['ORIG_RT'] - Log_Orig['ORIG_BENCHMK']
  \<close>
  A left merge keeps every row of the left table: once for each row of \<^verbatim>\<open>Rates\<close>
  whose date is equal to \<^verbatim>\<open>ORIG_DTE\<close> (with the rate cell of that row), and once with
  NaN when there is none.
\<close>

record loan_cov = loan +
  CA_FL :: nat
  ORIG_BENCHMK :: fval
  SATO :: fval

definition merge_left :: "series \<Rightarrow> date \<Rightarrow> fval list" where
  "merge_left Rates d =
     (case filter (\<lambda>kv. fst kv = d) Rates of
        [] \<Rightarrow> [None]
      | m # ms \<Rightarrow> map snd (m # ms))"

definition covariates_row :: "loan \<Rightarrow> fval \<Rightarrow> loan_cov" where
  "covariates_row l b =
     \<lparr>LOAN_ID = LOAN_ID l, ORIG_AMT = ORIG_AMT l, ORIG_RT = ORIG_RT l, ORIG_DTE = ORIG_DTE l,
      OCLTV = OCLTV l, DTI = DTI l, CSCORE_B = CSCORE_B l, STATE = STATE l,
      CA_FL = (if STATE l \<in> set [''CA'', ''FL''] then 1 else 0),
      ORIG_BENCHMK = b,
      SATO = fsub (ORIG_RT l) b\<rparr>"

definition covariates :: "series \<Rightarrow> loan list \<Rightarrow> loan_cov list" where
  "covariates Rates t = concat (map (\<lambda>l. map (covariates_row l) (merge_left Rates (ORIG_DTE l))) t)"

text \<open>
  The reclassification of Puerto Rico and the Virgin Islands:
  \<^verbatim>\<open>
  Log_Orig.ix[Log_Orig['STATE'] == 'PR','STATE'] = 'HI'
  Log_Orig.ix[Log_Orig['STATE'] == 'VI','STATE'] = 'HI'
  \<close>
\<close>

definition remap_state :: "loan_cov list \<Rightarrow> loan_cov list" where
  "remap_state t =
     map (\<lambda>r. if STATE r = ''VI'' then r\<lparr>STATE := ''HI''\<rparr> else r)
         (map (\<lambda>r. if STATE r = ''PR'' then r\<lparr>STATE := ''HI''\<rparr> else r) t)"

text \<open>
  \<^verbatim>\<open>
  def minVal(series,origdate,offset,duration,state):
      startdate = dt.date(origdate.year+offset, origdate.month, origdate.day)
      enddate = dt.date(origdate.year+offset+duration, origdate.month, origdate.day)
      if series=='HPI':
          return min(HPI.ix[startdate:enddate,state]) / HPI.ix[startdate,state]
      if series=='Rate':
          return Rates.ix[startdate,'Rate'] - min(Rates.ix[startdate:enddate,'Rate'])
  \<close>
  The globals \<^verbatim>\<open>HPI\<close> and \<^verbatim>\<open>Rates\<close> are parameters. The operands are evaluated
  from left to right; a state that is no column of \<^verbatim>\<open>HPI\<close> is a KeyError. With any
  other name of a series the function returns Python's \<^verbatim>\<open>None\<close>.
\<close>

datatype pyval = PyNone | PyFloat fval

definition minVal ::
  "(string \<rightharpoonup> series) \<Rightarrow> series \<Rightarrow> string \<Rightarrow> date \<Rightarrow> int \<Rightarrow> int \<Rightarrow> string \<Rightarrow> error + pyval" where
  "minVal HPI Rates series origdate offset duration state =
     (case dt_date (year origdate + offset) (month origdate) (day origdate) of
        Inl e \<Rightarrow> Inl e
      | Inr startdate \<Rightarrow>
         (case dt_date (year origdate + offset + duration) (month origdate) (day origdate) of
            Inl e \<Rightarrow> Inl e
          | Inr enddate \<Rightarrow>
             if series = ''HPI'' then
               (case HPI state of
                  None \<Rightarrow> Inl KeyError
                | Some col \<Rightarrow>
                   (case py_min (ix_slice col startdate enddate) of
                      Inl e \<Rightarrow> Inl e
                    | Inr m \<Rightarrow>
                       (case ix_point col startdate of
                          Inl e \<Rightarrow> Inl e
                        | Inr v \<Rightarrow> Inr (PyFloat (fdiv m v)))))
             else if series = ''Rate'' then
               (case ix_point Rates startdate of
                  Inl e \<Rightarrow> Inl e
                | Inr v \<Rightarrow>
                   (case py_min (ix_slice Rates startdate enddate) of
                      Inl e \<Rightarrow> Inl e
                    | Inr m \<Rightarrow> Inr (PyFloat (fsub v m))))
             else Inr PyNone))"

text \<open>
  One window column of the table, as in
  \<^verbatim>\<open>Log_Orig['Rate-Y1&2']=map(lambda x, y: minVal('Rate',x,0,2,y), Log_Orig['ORIG_DTE'], Log_Orig['STATE'])\<close>;
  the six columns are the series \<^verbatim>\<open>'HPI'\<close> and \<^verbatim>\<open>'Rate'\<close> at the offsets 0, 2 and 4
  with duration 2.
\<close>

definition window_column ::
  "(string \<rightharpoonup> series) \<Rightarrow> series \<Rightarrow> string \<Rightarrow> int \<Rightarrow> int \<Rightarrow> loan_cov list \<Rightarrow> error + pyval list" where
  "window_column HPI Rates series offset duration t =
     py_map (\<lambda>r. minVal HPI Rates series (ORIG_DTE r) offset duration (STATE r)) t"

section \<open>The event log and the response label\<close>

text \<open>
  A row of the performance table \<^verbatim>\<open>Perf\<close>: the columns \<^verbatim>\<open>LOAN_ID\<close>,
  \<^verbatim>\<open>Zero.Bal.Code\<close> and \<^verbatim>\<open>ZB_DTE\<close>. The code and the date are nullable.
\<close>

record event =
  Perf_LOAN_ID :: int
  Zero_Bal_Code :: "int option"
  ZB_DTE :: "date option"

text \<open>
  \<^verbatim>\<open>
  def extractDefault(ID):
      a = Perf.ix[(Perf['LOAN_ID']==ID) & Perf['ZB_DTE'].notnull(),['Zero.Bal.Code','ZB_DTE']]
      if len(a) == 0: return np.NAN,np.NAN
      else: return a.iloc[0,0], a.iloc[0,1]
  \<close>
\<close>

definition extractDefault :: "event list \<Rightarrow> int \<Rightarrow> int option \<times> date option" where
  "extractDefault Perf ID =
     (let a = map (\<lambda>e. (Zero_Bal_Code e, ZB_DTE e))
                  (filter (\<lambda>e. Perf_LOAN_ID e = ID \<and> ZB_DTE e \<noteq> None) Perf)
      in if length a = 0 then (None, None) else (fst (a ! 0), snd (a ! 0)))"

text \<open>
  \<^verbatim>\<open>
  def ResponseValue(Code,OrigDate,DefDate):
      if Code in [3,6,9]:
          DefDate = dt.date(DefDate.year, DefDate.month, DefDate.day)
          if DefDate <= dt.date(OrigDate.year+2, OrigDate.month, OrigDate.day):
              return 1
          elif DefDate <= dt.date(OrigDate.year+4, OrigDate.month, OrigDate.day):
              return 2
          elif DefDate <= dt.date(OrigDate.year+6, OrigDate.month, OrigDate.day):
              return 3
      return 0
  \<close>
  \<open>Code\<close> is a cell of the column \<^verbatim>\<open>DEFAULT.CODE\<close> (\<open>None\<close> is NaN, which is in no
  list), \<open>DefDate\<close> a cell of \<^verbatim>\<open>DEFAULT.DATE\<close> after \<^verbatim>\<open>pd.to_datetime\<close>
  (\<open>None\<close> is NaT, on whose fields \<^verbatim>\<open>dt.date\<close> fails). Each cutoff is built only when
  the comparison before it has failed, as in the source.
\<close>

definition ResponseValue :: "int option \<Rightarrow> date \<Rightarrow> date option \<Rightarrow> error + nat" where
  "ResponseValue Code OrigDate DefDate =
     (if Code \<in> set [Some 3, Some 6, Some 9] then
        (case DefDate of
           None \<Rightarrow> Inl NaTError
         | Some dd \<Rightarrow>
            (case dt_date (year dd) (month dd) (day dd) of
               Inl e \<Rightarrow> Inl e
             | Inr DefDate' \<Rightarrow>
                (case dt_date (year OrigDate + 2) (month OrigDate) (day OrigDate) of
                   Inl e \<Rightarrow> Inl e
                 | Inr c1 \<Rightarrow>
                    if DefDate' \<le> c1 then Inr 1
                    else
                      (case dt_date (year OrigDate + 4) (month OrigDate) (day OrigDate) of
                         Inl e \<Rightarrow> Inl e
                       | Inr c2 \<Rightarrow>
                          if DefDate' \<le> c2 then Inr 2
                          else
                            (case dt_date (year OrigDate + 6) (month OrigDate) (day OrigDate) of
                               Inl e \<Rightarrow> Inl e
                             | Inr c3 \<Rightarrow> if DefDate' \<le> c3 then Inr 3 else Inr 0)))))
      else Inr 0)"

text \<open>
  The response column:
  \<^verbatim>\<open>
  Log_Orig['DEFAULT.CODE'], Log_Orig['DEFAULT.DATE'] = zip(*map(extractDefault,Log_Orig['LOAN_ID']))
  Log_Orig['RESPONSE'] = map(ResponseValue, Log_Orig['DEFAULT.CODE'], Log_Orig['ORIG_DTE'], Log_Orig['DEFAULT.DATE'])
  \<close>
\<close>

definition RESPONSE :: "event list \<Rightarrow> loan_cov list \<Rightarrow> error + nat list" where
  "RESPONSE Perf t =
     py_map (\<lambda>r. ResponseValue (fst (extractDefault Perf (LOAN_ID r))) (ORIG_DTE r)
                                (snd (extractDefault Perf (LOAN_ID r)))) t"

section \<open>Example tables\<close>

text \<open>
  A benchmark series with three January rates, the same series dated in the middle of
  the month, an HPI table with the one state Hawaii, and a loan of which the origination
  date, the rate and the state vary.
\<close>

definition ex_Rates :: series where
  "ex_Rates = [((2005, 1, 1), Some (587 / 100)), ((2006, 1, 1), Some 5), ((2007, 1, 1), Some 6)]"

definition ex_Rates_mid :: series where
  "ex_Rates_mid = [((2005, 1, 15), Some (587 / 100)), ((2006, 1, 15), Some 5), ((2007, 1, 15), Some 6)]"

definition ex_HPI :: "string \<rightharpoonup> series" where
  "ex_HPI = [''HI'' \<mapsto> [((2005, 1, 1), Some 100), ((2006, 1, 1), Some 90), ((2007, 1, 1), Some 120)]]"

definition ex_loan :: "date \<Rightarrow> fval \<Rightarrow> string \<Rightarrow> loan" where
  "ex_loan d rt st =
     \<lparr>LOAN_ID = 1, ORIG_AMT = Some 55000, ORIG_RT = rt, ORIG_DTE = d,
      OCLTV = Some 39, DTI = Some 30, CSCORE_B = Some 700, STATE = st\<rparr>"

text \<open>
  Loan tables for the imputation. In \<open>ex_scores\<close> the first loan has no credit score; its
  OCLTV column holds the whole numbers 39, 41, 38 and 80, and is \<^verbatim>\<open>int64\<close> or
  \<^verbatim>\<open>float64\<close>. In \<open>ex_alone\<close> a loan without credit score, a loan without DTI and a
  loan without OCLTV are each alone in their bucket. In \<open>ex_norate\<close> the first loan has
  no origination rate and the second no OCLTV.
\<close>

definition ex_row :: "fval \<Rightarrow> fval \<Rightarrow> fval \<Rightarrow> fval \<Rightarrow> loan" where
  "ex_row rt ltv dti fico =
     \<lparr>LOAN_ID = 2, ORIG_AMT = Some 55000, ORIG_RT = rt, ORIG_DTE = (2005, 1, 1),
      OCLTV = ltv, DTI = dti, CSCORE_B = fico, STATE = ''FL''\<rparr>"

definition ex_scores :: "dtype \<Rightarrow> frame" where
  "ex_scores dt =
     \<lparr>rows =
        [ex_row (Some (25 / 4)) (Some 39) (Some 30) None,
         ex_row (Some (25 / 4)) (Some 41) None (Some 700),
         ex_row (Some (25 / 4)) (Some 38) (Some 30) (Some 720),
         ex_row (Some (25 / 4)) (Some 80) (Some 30) (Some 600)],
      OCLTV_dtype = dt, CSCORE_B_dtype = float64\<rparr>"

definition ex_alone :: frame where
  "ex_alone =
     \<lparr>rows =
        [ex_row (Some (25 / 4)) (Some 39) (Some 30) None,
         ex_row (Some (29 / 4)) (Some 80) None (Some 700),
         ex_row (Some (33 / 4)) None (Some 30) (Some 600)],
      OCLTV_dtype = float64, CSCORE_B_dtype = float64\<rparr>"

definition ex_norate :: frame where
  "ex_norate =
     \<lparr>rows =
        [ex_row None (Some 39) (Some 30) (Some 700),
         ex_row (Some (25 / 4)) None (Some 30) (Some 700)],
      OCLTV_dtype = float64, CSCORE_B_dtype = int64\<rparr>"

section \<open>Properties of the event labeler\<close>

lemma dt_date_error: "dt_date y m d = Inl e \<Longrightarrow> e = ValueError"
  by (simp add: dt_date_def split: if_splits)

lemma dt_date_Inr: "dt_date y m d = Inr c \<Longrightarrow> c = (y, m, d)"
  by (simp add: dt_date_def split: if_splits)

lemma extractDefault_cases:
  "extractDefault Perf ID = (None, None) \<or>
   (\<exists>e \<in> set Perf. Perf_LOAN_ID e = ID \<and> ZB_DTE e \<noteq> None \<and>
        extractDefault Perf ID = (Zero_Bal_Code e, ZB_DTE e))"
proof (cases "filter (\<lambda>e. Perf_LOAN_ID e = ID \<and> ZB_DTE e \<noteq> None) Perf")
  case Nil
  then show ?thesis by (simp add: extractDefault_def)
next
  case (Cons e es)
  then have "e \<in> set (filter (\<lambda>e. Perf_LOAN_ID e = ID \<and> ZB_DTE e \<noteq> None) Perf)"
    by simp
  then have "e \<in> set Perf" "Perf_LOAN_ID e = ID" "ZB_DTE e \<noteq> None"
    by simp_all
  moreover have "extractDefault Perf ID = (Zero_Bal_Code e, ZB_DTE e)"
    using Cons by (simp add: extractDefault_def)
  ultimately show ?thesis by blast
qed

lemma ResponseValue_not_NaT:
  "DefDate \<noteq> None \<or> Code \<notin> {Some 3, Some 6, Some 9} \<Longrightarrow> ResponseValue Code OrigDate DefDate \<noteq> Inl NaTError"
  by (auto simp add: ResponseValue_def split: option.splits sum.splits dest: dt_date_error)

lemma py_map_Inl: "py_map f xs = Inl e \<Longrightarrow> \<exists>x \<in> set xs. f x = Inl e"
  by (induction xs) (auto split: sum.splits)

lemma py_map_isl: "x \<in> set xs \<Longrightarrow> isl (f x) \<Longrightarrow> isl (py_map f xs)"
  by (induction xs) (auto split: sum.splits)

text \<open>
  C9. The response label is 0 whenever the exit code is not one of 3, 6 and 9 (code 99,
  or the NaN of a loan without exit), whatever the exit date; and when the event log has
  no row of the loan with a non-null exit date, \<open>extractDefault\<close> returns the pair of
  undefined values and the label is 0.
\<close>

theorem ResponseValue_censored:
  "(Code \<notin> {Some 3, Some 6, Some 9} \<longrightarrow> ResponseValue Code OrigDate DefDate = Inr 0) \<and>
   ((\<forall>e \<in> set Perf. Perf_LOAN_ID e = ID \<longrightarrow> ZB_DTE e = None) \<longrightarrow>
      extractDefault Perf ID = (None, None) \<and>
      ResponseValue (fst (extractDefault Perf ID)) OrigDate (snd (extractDefault Perf ID)) = Inr 0)"
proof -
  have a: "Code \<notin> {Some 3, Some 6, Some 9} \<longrightarrow> ResponseValue Code OrigDate DefDate = Inr 0"
    by (simp add: ResponseValue_def)
  have b: "extractDefault Perf ID = (None, None)"
    if "\<forall>e \<in> set Perf. Perf_LOAN_ID e = ID \<longrightarrow> ZB_DTE e = None"
    using that extractDefault_cases [of Perf ID] by auto
  have c: "ResponseValue None OrigDate None = Inr 0"
    by (simp add: ResponseValue_def)
  from a b c show ?thesis by simp
qed

theorem ResponseValue_censored_witness:
  "Some 99 \<notin> {Some 3, Some 6, Some (9::int)} \<and>
   ResponseValue (Some 99) (2005, 1, 1) (Some (2006, 3, 1)) = Inr 0 \<and>
   extractDefault [\<lparr>Perf_LOAN_ID = 7, Zero_Bal_Code = Some 3, ZB_DTE = None\<rparr>,
                   \<lparr>Perf_LOAN_ID = 8, Zero_Bal_Code = Some 3, ZB_DTE = Some (2006, 3, 1)\<rparr>] 7
     = (None, None) \<and>
   ResponseValue
     (fst (extractDefault [\<lparr>Perf_LOAN_ID = 7, Zero_Bal_Code = Some 3, ZB_DTE = None\<rparr>,
                   \<lparr>Perf_LOAN_ID = 8, Zero_Bal_Code = Some 3, ZB_DTE = Some (2006, 3, 1)\<rparr>] 7))
     (2005, 1, 1)
     (snd (extractDefault [\<lparr>Perf_LOAN_ID = 7, Zero_Bal_Code = Some 3, ZB_DTE = None\<rparr>,
                   \<lparr>Perf_LOAN_ID = 8, Zero_Bal_Code = Some 3, ZB_DTE = Some (2006, 3, 1)\<rparr>] 7))
     = Inr 0"
proof -
  have h1: "Some 99 \<notin> {Some 3, Some 6, Some (9::int)}"
    by simp
  have h2: "\<forall>e \<in> set [\<lparr>Perf_LOAN_ID = 7, Zero_Bal_Code = Some 3, ZB_DTE = None\<rparr>,
               \<lparr>Perf_LOAN_ID = 8, Zero_Bal_Code = Some 3, ZB_DTE = Some (2006, 3, 1)\<rparr>].
      Perf_LOAN_ID e = 7 \<longrightarrow> ZB_DTE e = None"
    by simp
  show ?thesis
    using h1 h2 ResponseValue_censored [of "Some 99" "(2005, 1, 1)" "Some (2006, 3, 1)"
      "[\<lparr>Perf_LOAN_ID = 7, Zero_Bal_Code = Some 3, ZB_DTE = None\<rparr>,
        \<lparr>Perf_LOAN_ID = 8, Zero_Bal_Code = Some 3, ZB_DTE = Some (2006, 3, 1)\<rparr>]" 7]
    by blast
qed

text \<open>
  C10. \<open>extractDefault\<close> returns a non-null exit code only together with a non-null
  exit date, so \<open>ResponseValue\<close> on the pair it returns never fails on a null date,
  neither for one loan nor in the column computed for a whole table.
\<close>

theorem extractDefault_code_has_date:
  "(fst (extractDefault Perf ID) \<noteq> None \<longrightarrow> snd (extractDefault Perf ID) \<noteq> None) \<and>
   ResponseValue (fst (extractDefault Perf ID)) OrigDate (snd (extractDefault Perf ID)) \<noteq> Inl NaTError \<and>
   RESPONSE Perf t \<noteq> Inl NaTError"
proof -
  have a: "fst (extractDefault Perf i) \<noteq> None \<longrightarrow> snd (extractDefault Perf i) \<noteq> None" for i
    using extractDefault_cases [of Perf i] by auto
  have b: "ResponseValue (fst (extractDefault Perf i)) d (snd (extractDefault Perf i)) \<noteq> Inl NaTError" for i d
  proof (rule ResponseValue_not_NaT)
    show "snd (extractDefault Perf i) \<noteq> None \<or> fst (extractDefault Perf i) \<notin> {Some 3, Some 6, Some 9}"
      using a [of i] by auto
  qed
  have c: "RESPONSE Perf t \<noteq> Inl NaTError"
  proof
    assume "RESPONSE Perf t = Inl NaTError"
    then obtain r :: loan_cov where "ResponseValue (fst (extractDefault Perf (LOAN_ID r))) (ORIG_DTE r)
                                (snd (extractDefault Perf (LOAN_ID r))) = Inl NaTError"
      unfolding RESPONSE_def by (auto dest: py_map_Inl)
    with b show False by blast
  qed
  from a b c show ?thesis by blast
qed

lemma leap_not_twice: "is_leap y \<Longrightarrow> is_leap (y + 2) \<Longrightarrow> False"
  unfolding is_leap_def by presburger

lemma days_in_month_ge28: "28 \<le> days_in_month y m"
  by (simp add: days_in_month_def)

lemma days_in_month_pos: "1 \<le> days_in_month y m"
  by (simp add: days_in_month_def)

lemma day_fits_later:
  assumes "d \<le> days_in_month y m" and "d \<le> days_in_month (y + 2) m"
  shows "d \<le> days_in_month y' m"
proof (cases "m = 2")
  case True
  with assms leap_not_twice [of y] have "d \<le> 28"
    by (auto simp add: days_in_month_def split: if_splits)
  with days_in_month_ge28 [of y' m] show ?thesis by linarith
next
  case False
  with assms(1) show ?thesis by (simp add: days_in_month_def)
qed

text \<open>
  C5. With exit code 3, an exit on the cutoff date (origination plus two years) has the
  label 1, and an exit on the day after it has the label 2. The origination date is a
  date that exists and lies, like every timestamp, four years or more before the last
  year of \<^verbatim>\<open>datetime.date\<close>.
\<close>

theorem ResponseValue_boundary:
  assumes orig: "valid_date OrigDate"
    and range: "year OrigDate + 4 \<le> 9999"
    and cutoff: "dt_date (year OrigDate + 2) (month OrigDate) (day OrigDate) = Inr cutoff"
  shows "ResponseValue (Some 3) OrigDate (Some cutoff) = Inr 1 \<and>
         ResponseValue (Some 3) OrigDate (Some (next_day cutoff)) = Inr 2"
proof -
  obtain y m d where o: "OrigDate = (y, m, d)" by (cases OrigDate) auto
  from cutoff o have c: "cutoff = (y + 2, m, d)"
    by (auto simp add: year_def month_def day_def dest: dt_date_Inr)
  from orig o have v0: "1 \<le> y" "1 \<le> m" "m \<le> 12" "1 \<le> d" "d \<le> days_in_month y m"
    by (simp_all add: valid_date_def dt_date_def year_def month_def day_def split: if_splits)
  from cutoff o have v2: "d \<le> days_in_month (y + 2) m"
    by (simp add: dt_date_def year_def month_def day_def split: if_splits)
  from range o have r: "y + 4 \<le> 9999" by (simp add: year_def)
  have v4: "d \<le> days_in_month (y + 4) m"
    using v0(5) v2 by (rule day_fits_later)
  have c1: "dt_date (y + 2) m d = Inr (y + 2, m, d)"
    using v0 v2 r by (simp add: dt_date_def)
  have c2: "dt_date (y + 4) m d = Inr (y + 4, m, d)"
    using v0 v4 r by (simp add: dt_date_def)
  have first: "ResponseValue (Some 3) OrigDate (Some cutoff) = Inr 1"
    using c1 by (simp add: ResponseValue_def o c year_def month_def day_def)
  obtain y' m' d' where n: "next_day cutoff = (y', m', d')" by (cases "next_day cutoff") auto
  have nv: "dt_date y' m' d' = Inr (y', m', d')"
  proof -
    have "1 \<le> y' \<and> y' \<le> 9999 \<and> 1 \<le> m' \<and> m' \<le> 12 \<and> 1 \<le> d' \<and> d' \<le> days_in_month y' m'"
      using n v0 v2 r unfolding c next_day_def year_def month_def day_def
      by (auto simp add: days_in_month_pos split: if_splits)
    then show ?thesis by (simp add: dt_date_def)
  qed
  have later: "\<not> (y', m', d') \<le> (y + 2, m, d)"
    using n v0 v2 unfolding c next_day_def year_def month_def day_def
    by (auto split: if_splits)
  have within: "(y', m', d') \<le> (y + 4, m, d)"
    using n unfolding c next_day_def year_def month_def day_def
    by (auto split: if_splits)
  have second: "ResponseValue (Some 3) OrigDate (Some (next_day cutoff)) = Inr 2"
    using c1 c2 nv later within by (simp add: ResponseValue_def o n year_def month_def day_def)
  from first second show ?thesis by simp
qed

theorem ResponseValue_boundary_witness:
  "valid_date (2005, 1, 1) \<and> year (2005, 1, 1) + 4 \<le> 9999 \<and>
   dt_date (year (2005, 1, 1) + 2) (month (2005, 1, 1)) (day (2005, 1, 1)) = Inr (2007, 1, 1) \<and>
   ResponseValue (Some 3) (2005, 1, 1) (Some (2007, 1, 1)) = Inr 1 \<and>
   ResponseValue (Some 3) (2005, 1, 1) (Some (2007, 1, 2)) = Inr 2"
proof -
  have h1: "valid_date (2005, 1, 1)"
    by (simp add: valid_date_def dt_date_def year_def month_def day_def days_in_month_def)
  have h2: "year (2005, 1, 1) + 4 \<le> 9999"
    by (simp add: year_def)
  have h3: "dt_date (year (2005, 1, 1) + 2) (month (2005, 1, 1)) (day (2005, 1, 1)) = Inr (2007, 1, 1)"
    by (simp add: dt_date_def year_def month_def day_def days_in_month_def)
  have n: "next_day (2007, 1, 1) = (2007, 1, 2)"
    by (simp add: next_day_def year_def month_def day_def days_in_month_def)
  show ?thesis
    using h1 h2 h3 ResponseValue_boundary [OF h1 h2 h3] by (simp add: n)
qed

theorem extractDefault_code_has_date_witness:
  "fst (extractDefault [\<lparr>Perf_LOAN_ID = 7, Zero_Bal_Code = Some 3, ZB_DTE = None\<rparr>,
                        \<lparr>Perf_LOAN_ID = 7, Zero_Bal_Code = Some 6, ZB_DTE = Some (2006, 3, 1)\<rparr>] 7) \<noteq> None \<and>
   snd (extractDefault [\<lparr>Perf_LOAN_ID = 7, Zero_Bal_Code = Some 3, ZB_DTE = None\<rparr>,
                        \<lparr>Perf_LOAN_ID = 7, Zero_Bal_Code = Some 6, ZB_DTE = Some (2006, 3, 1)\<rparr>] 7) \<noteq> None \<and>
   ResponseValue
     (fst (extractDefault [\<lparr>Perf_LOAN_ID = 7, Zero_Bal_Code = Some 3, ZB_DTE = None\<rparr>,
                           \<lparr>Perf_LOAN_ID = 7, Zero_Bal_Code = Some 6, ZB_DTE = Some (2006, 3, 1)\<rparr>] 7))
     (2005, 1, 1)
     (snd (extractDefault [\<lparr>Perf_LOAN_ID = 7, Zero_Bal_Code = Some 3, ZB_DTE = None\<rparr>,
                           \<lparr>Perf_LOAN_ID = 7, Zero_Bal_Code = Some 6, ZB_DTE = Some (2006, 3, 1)\<rparr>] 7))
     \<noteq> Inl NaTError"
proof -
  have h: "fst (extractDefault [\<lparr>Perf_LOAN_ID = 7, Zero_Bal_Code = Some 3, ZB_DTE = None\<rparr>,
                        \<lparr>Perf_LOAN_ID = 7, Zero_Bal_Code = Some 6, ZB_DTE = Some (2006, 3, 1)\<rparr>] 7) \<noteq> None"
    by (simp add: extractDefault_def)
  show ?thesis
    using h extractDefault_code_has_date
      [of "[\<lparr>Perf_LOAN_ID = 7, Zero_Bal_Code = Some 3, ZB_DTE = None\<rparr>,
            \<lparr>Perf_LOAN_ID = 7, Zero_Bal_Code = Some 6, ZB_DTE = Some (2006, 3, 1)\<rparr>]" 7 "(2005, 1, 1)" "[]"]
    by blast
qed

section \<open>Properties of the window features and the remap\<close>

lemma py_min_error: "py_min xs = Inl e \<Longrightarrow> e = ValueError"
  by (cases xs) (simp_all add: py_min_def)

lemma ix_point_error: "ix_point s d = Inl e \<Longrightarrow> e = KeyError"
  by (simp add: ix_point_def split: option.splits)

lemma ix_point_absent: "d \<notin> fst ` set s \<Longrightarrow> ix_point s d = Inl KeyError"
proof -
  assume "d \<notin> fst ` set s"
  then have "map_of s d = None" by (simp add: map_of_eq_None_iff)
  then show ?thesis by (simp add: ix_point_def)
qed

lemma ix_point_present:
  assumes "wf_series s" and "(d, c) \<in> set s"
  shows "ix_point s d = Inr c"
proof -
  from assms(1) have "distinct (map fst s)"
    by (simp add: wf_series_def strict_sorted_iff)
  with assms(2) have "map_of s d = Some c" by simp
  then show ?thesis by (simp add: ix_point_def)
qed

lemma set_ix_slice: "set (ix_slice s a b) = {c. \<exists>d. (d, c) \<in> set s \<and> a \<le> d \<and> d \<le> b}"
  by (force simp add: ix_slice_def)

lemma foldl_least_present:
  assumes "\<forall>c \<in> set cs. c \<noteq> None"
  shows "foldl (\<lambda>least item. if py_lt item least then item else least) (Some x) cs
           = Some (Min (insert x (the ` set cs)))"
  using assms
proof (induction cs arbitrary: x)
  case Nil
  show ?case by simp
next
  case (Cons c cs)
  then obtain y where c: "c = Some y" by auto
  have step: "(if py_lt (Some y) (Some x) then Some y else Some x) = Some (min x y)"
    by (auto simp add: py_lt_def min_def)
  have "foldl (\<lambda>least item. if py_lt item least then item else least) (Some x) (c # cs)
          = Some (Min (insert (min x y) (the ` set cs)))"
    using Cons.IH [of "min x y"] Cons.prems by (simp add: c step)
  also have "Min (insert (min x y) (the ` set cs)) = Min (insert x (insert y (the ` set cs)))"
    by (cases "set cs = {}") (simp_all add: min.assoc)
  finally show ?case by (simp add: c)
qed

lemma py_min_present:
  assumes "xs \<noteq> []" and "\<forall>c \<in> set xs. c \<noteq> None"
  shows "py_min xs = Inr (Some (Min (the ` set xs)))"
proof -
  from assms obtain x cs where xs: "xs = Some x # cs" by (cases xs) auto
  with assms(2) have "\<forall>c \<in> set cs. c \<noteq> None" by simp
  then show ?thesis by (simp add: py_min_def xs foldl_least_present)
qed

text \<open>
  C7. For a loan whose window dates exist, whose window start date has a rate in the
  benchmark series and whose window holds no missing rate, the rate feature of
  \<open>minVal\<close> is the rate at the start date minus the least of the rates that the series
  holds at the dates from the start date to the end date, both included; it is never
  negative, and it is 0 exactly when none of these rates is below the rate at the start
  date.
\<close>

theorem minVal_Rate_drop:
  assumes start: "dt_date (year origdate + offset) (month origdate) (day origdate) = Inr startdate"
    and stop: "dt_date (year origdate + offset + duration) (month origdate) (day origdate) = Inr enddate"
    and dur: "0 \<le> duration"
    and wf: "wf_series Rates"
    and point: "(startdate, Some v) \<in> set Rates"
    and window: "\<forall>(d, c) \<in> set Rates. startdate \<le> d \<and> d \<le> enddate \<longrightarrow> c \<noteq> None"
  shows "minVal HPI Rates ''Rate'' origdate offset duration state
           = Inr (PyFloat (Some
               (v - Min {x. \<exists>d. (d, Some x) \<in> set Rates \<and> startdate \<le> d \<and> d \<le> enddate}))) \<and>
         0 \<le> v - Min {x. \<exists>d. (d, Some x) \<in> set Rates \<and> startdate \<le> d \<and> d \<le> enddate} \<and>
         (v - Min {x. \<exists>d. (d, Some x) \<in> set Rates \<and> startdate \<le> d \<and> d \<le> enddate} = 0 \<longleftrightarrow>
            (\<forall>d x. (d, Some x) \<in> set Rates \<and> startdate \<le> d \<and> d \<le> enddate \<longrightarrow> v \<le> x))"
proof -
  let ?S = "ix_slice Rates startdate enddate"
  let ?W = "{x. \<exists>d. (d, Some x) \<in> set Rates \<and> startdate \<le> d \<and> d \<le> enddate}"
  have order: "startdate \<le> enddate"
    using dt_date_Inr [OF start] dt_date_Inr [OF stop] dur by simp
  have all: "\<forall>c \<in> set ?S. c \<noteq> None"
    using window unfolding set_ix_slice by blast
  have W: "the ` set ?S = ?W"
  proof
    show "the ` set ?S \<subseteq> ?W"
      using all unfolding set_ix_slice by force
    show "?W \<subseteq> the ` set ?S"
      unfolding set_ix_slice by force
  qed
  have fin: "finite ?W" unfolding W [symmetric] by simp
  have mem: "v \<in> ?W" using point order by blast
  have "Some v \<in> set ?S"
    using point order unfolding set_ix_slice by blast
  then have ne: "?S \<noteq> []" by auto
  have p: "ix_point Rates startdate = Inr (Some v)"
    using wf point by (rule ix_point_present)
  have m: "py_min ?S = Inr (Some (Min ?W))"
    using py_min_present [OF ne all] by (simp only: W)
  have val: "minVal HPI Rates ''Rate'' origdate offset duration state = Inr (PyFloat (Some (v - Min ?W)))"
    by (simp add: minVal_def start stop p m fsub_def)
  have le: "Min ?W \<le> v" using fin mem by simp
  have zero: "(v - Min ?W = 0) = (\<forall>d x. (d, Some x) \<in> set Rates \<and> startdate \<le> d \<and> d \<le> enddate \<longrightarrow> v \<le> x)"
  proof
    assume "v - Min ?W = 0"
    then have "v = Min ?W" by simp
    then have "\<forall>x \<in> ?W. v \<le> x" using fin by simp
    then show "\<forall>d x. (d, Some x) \<in> set Rates \<and> startdate \<le> d \<and> d \<le> enddate \<longrightarrow> v \<le> x"
      by blast
  next
    assume "\<forall>d x. (d, Some x) \<in> set Rates \<and> startdate \<le> d \<and> d \<le> enddate \<longrightarrow> v \<le> x"
    then have "\<forall>x \<in> ?W. v \<le> x" by blast
    moreover have "?W \<noteq> {}" using mem by blast
    ultimately have "v \<le> Min ?W" using Min_ge_iff [OF fin, of v] by blast
    with le show "v - Min ?W = 0" by simp
  qed
  from val le zero show ?thesis by simp
qed

lemma minVal_error: "minVal HPI Rates series origdate offset duration state = Inl e \<Longrightarrow> e \<in> {KeyError, ValueError}"
  by (auto simp add: minVal_def dt_date_def split: sum.splits option.splits if_splits dest: py_min_error ix_point_error)

text \<open>
  C1 (as amended). When the window start date of a loan has no entry in the reference
  series (the benchmark series, or the HPI column of the loan's state), \<open>minVal\<close> raises
  KeyError or ValueError for that loan, and the \<^verbatim>\<open>map\<close> that computes the column for a
  table holding the loan ends with such an exception: no column is produced.
\<close>

theorem minVal_start_absent_raises:
  assumes which: "series = ''Rate'' \<and> s = Rates \<or> series = ''HPI'' \<and> HPI (STATE r) = Some s"
    and start: "dt_date (year (ORIG_DTE r) + offset) (month (ORIG_DTE r)) (day (ORIG_DTE r)) = Inr startdate"
    and absent: "startdate \<notin> fst ` set s"
    and row: "r \<in> set t"
  shows "minVal HPI Rates series (ORIG_DTE r) offset duration (STATE r) \<in> {Inl KeyError, Inl ValueError} \<and>
         window_column HPI Rates series offset duration t \<in> {Inl KeyError, Inl ValueError}"
proof -
  have p: "ix_point s startdate = Inl KeyError"
    using absent by (rule ix_point_absent)
  have "isl (minVal HPI Rates series (ORIG_DTE r) offset duration (STATE r))"
    using which
  proof
    assume "series = ''Rate'' \<and> s = Rates"
    with p start show ?thesis
      by (simp add: minVal_def split: sum.splits)
  next
    assume "series = ''HPI'' \<and> HPI (STATE r) = Some s"
    with p start show ?thesis
      by (simp add: minVal_def split: sum.splits)
  qed
  then obtain e where e: "minVal HPI Rates series (ORIG_DTE r) offset duration (STATE r) = Inl e"
    by (cases "minVal HPI Rates series (ORIG_DTE r) offset duration (STATE r)") auto
  have one: "minVal HPI Rates series (ORIG_DTE r) offset duration (STATE r) \<in> {Inl KeyError, Inl ValueError}"
    using e minVal_error [OF e] by auto
  have "isl (window_column HPI Rates series offset duration t)"
    unfolding window_column_def using row e by (intro py_map_isl [of r]) simp_all
  then obtain e' where e': "window_column HPI Rates series offset duration t = Inl e'"
    by (cases "window_column HPI Rates series offset duration t") auto
  then obtain r' :: loan_cov where "minVal HPI Rates series (ORIG_DTE r') offset duration (STATE r') = Inl e'"
    unfolding window_column_def by (auto dest: py_map_Inl)
  then have "e' \<in> {KeyError, ValueError}" by (rule minVal_error)
  with e' one show ?thesis by auto
qed

text \<open>
  C8. A loan of the table with state PR or VI is, after the remap, a loan with state HI:
  the remapped table is the one obtained had the loan carried the state HI from the start,
  so every window column (either series, any offset and duration) is the same for both.
\<close>

theorem remap_state_window_same:
  assumes "i < length t" and "STATE (t ! i) \<in> {''PR'', ''VI''}"
  shows "remap_state (t[i := (t ! i)\<lparr>STATE := ''HI''\<rparr>]) = remap_state t \<and>
         STATE (remap_state t ! i) = ''HI'' \<and>
         window_column HPI Rates series offset duration (remap_state t) =
         window_column HPI Rates series offset duration (remap_state (t[i := (t ! i)\<lparr>STATE := ''HI''\<rparr>]))"
proof -
  have row: "(\<lambda>r. if STATE r = ''VI'' then r\<lparr>STATE := ''HI''\<rparr> else r)
               ((\<lambda>r. if STATE r = ''PR'' then r\<lparr>STATE := ''HI''\<rparr> else r) ((t ! i)\<lparr>STATE := ''HI''\<rparr>))
           = (\<lambda>r. if STATE r = ''VI'' then r\<lparr>STATE := ''HI''\<rparr> else r)
               ((\<lambda>r. if STATE r = ''PR'' then r\<lparr>STATE := ''HI''\<rparr> else r) (t ! i))"
    using assms(2) by auto
  have eq: "remap_state (t[i := (t ! i)\<lparr>STATE := ''HI''\<rparr>]) = remap_state t"
    unfolding remap_state_def map_map
    using assms(1) row by (simp add: map_update list_update_same_conv)
  have st: "STATE (remap_state t ! i) = ''HI''"
    using assms by (auto simp add: remap_state_def)
  from eq st show ?thesis by simp
qed

theorem minVal_Rate_drop_witness:
  "wf_series ex_Rates \<and> ((2005, 1, 1), Some (587 / 100)) \<in> set ex_Rates \<and>
   minVal ex_HPI ex_Rates ''Rate'' (2005, 1, 1) 0 2 ''FL'' = Inr (PyFloat (Some (87 / 100))) \<and>
   Some (87 / 100) =
     Some (587 / 100 - Min {x. \<exists>d. (d, Some x) \<in> set ex_Rates \<and> (2005, 1, 1) \<le> d \<and> d \<le> (2007, 1, 1)})"
proof -
  have h1: "dt_date (year (2005, 1, 1) + 0) (month (2005, 1, 1)) (day (2005, 1, 1)) = Inr (2005, 1, 1)"
    by (simp add: dt_date_def year_def month_def day_def days_in_month_def)
  have h2: "dt_date (year (2005, 1, 1) + 0 + 2) (month (2005, 1, 1)) (day (2005, 1, 1)) = Inr (2007, 1, 1)"
    by (simp add: dt_date_def year_def month_def day_def days_in_month_def)
  have h3: "(0::int) \<le> 2" by simp
  have h4: "wf_series ex_Rates"
    by (simp add: wf_series_def ex_Rates_def)
  have h5: "((2005, 1, 1), Some (587 / 100)) \<in> set ex_Rates"
    by (simp add: ex_Rates_def)
  have h6: "\<forall>(d, c) \<in> set ex_Rates. (2005, 1, 1) \<le> d \<and> d \<le> (2007, 1, 1) \<longrightarrow> c \<noteq> None"
    by code_simp
  have v: "minVal ex_HPI ex_Rates ''Rate'' (2005, 1, 1) 0 2 ''FL'' = Inr (PyFloat (Some (87 / 100)))"
    by code_simp
  from minVal_Rate_drop [OF h1 h2 h3 h4 h5 h6, of ex_HPI "''FL''"]
  have "minVal ex_HPI ex_Rates ''Rate'' (2005, 1, 1) 0 2 ''FL''
          = Inr (PyFloat (Some
               (587 / 100 - Min {x. \<exists>d. (d, Some x) \<in> set ex_Rates \<and> (2005, 1, 1) \<le> d \<and> d \<le> (2007, 1, 1)})))"
    by blast
  with v have "Some (87 / 100) =
     Some (587 / 100 - Min {x. \<exists>d. (d, Some x) \<in> set ex_Rates \<and> (2005, 1, 1) \<le> d \<and> d \<le> (2007, 1, 1)})"
    by simp
  with h4 h5 v show ?thesis by blast
qed

theorem minVal_start_absent_counterexample:
  "(2005, 2, 1) \<notin> fst ` set ex_Rates \<and>
   minVal ex_HPI ex_Rates ''Rate'' (2005, 2, 1) 0 2 ''HI'' = Inl KeyError \<and>
   minVal ex_HPI ex_Rates ''HPI'' (2005, 2, 1) 0 2 ''HI'' = Inl KeyError \<and>
   window_column ex_HPI ex_Rates ''Rate'' 0 2
     (covariates ex_Rates [ex_loan (2005, 1, 1) (Some (25 / 4)) ''HI'',
                           ex_loan (2005, 2, 1) (Some (25 / 4)) ''HI'']) = Inl KeyError"
  by code_simp

theorem minVal_start_absent_raises_witness:
  "(2005, 2, 1) \<notin> fst ` set ex_Rates \<and>
   minVal ex_HPI ex_Rates ''Rate'' (2005, 2, 1) 0 2 ''HI'' \<in> {Inl KeyError, Inl ValueError} \<and>
   window_column ex_HPI ex_Rates ''Rate'' 0 2
     [covariates_row (ex_loan (2005, 1, 1) (Some (25 / 4)) ''HI'') (Some (587 / 100)),
      covariates_row (ex_loan (2005, 2, 1) (Some (25 / 4)) ''HI'') None]
     \<in> {Inl KeyError, Inl ValueError}"
proof -
  let ?r = "covariates_row (ex_loan (2005, 2, 1) (Some (25 / 4)) ''HI'') None"
  let ?t = "[covariates_row (ex_loan (2005, 1, 1) (Some (25 / 4)) ''HI'') (Some (587 / 100)), ?r]"
  have d: "ORIG_DTE ?r = (2005, 2, 1)" and st: "STATE ?r = ''HI''"
    by (simp_all add: covariates_row_def ex_loan_def)
  have h1: "''Rate'' = ''Rate'' \<and> ex_Rates = ex_Rates \<or> ''Rate'' = ''HPI'' \<and> ex_HPI (STATE ?r) = Some ex_Rates"
    by simp
  have h2: "dt_date (year (ORIG_DTE ?r) + 0) (month (ORIG_DTE ?r)) (day (ORIG_DTE ?r)) = Inr (2005, 2, 1)"
    by (simp add: d dt_date_def year_def month_def day_def days_in_month_def)
  have h3: "(2005, 2, 1) \<notin> fst ` set ex_Rates"
    by (simp add: ex_Rates_def)
  have h4: "?r \<in> set ?t" by simp
  show ?thesis
    using h3 minVal_start_absent_raises
      [where series = "''Rate''" and s = ex_Rates and Rates = ex_Rates and HPI = ex_HPI
         and r = ?r and t = ?t and offset = 0 and duration = 2 and startdate = "(2005, 2, 1)",
       OF h1 h2 h3 h4]
    by (simp add: d st)
qed

theorem remap_state_window_same_witness:
  "STATE ([covariates_row (ex_loan (2005, 1, 1) (Some (25 / 4)) ''PR'') (Some (587 / 100))] ! 0)
     \<in> {''PR'', ''VI''} \<and>
   window_column ex_HPI ex_Rates ''HPI'' 0 2
     (remap_state [covariates_row (ex_loan (2005, 1, 1) (Some (25 / 4)) ''PR'') (Some (587 / 100))])
   = window_column ex_HPI ex_Rates ''HPI'' 0 2
     (remap_state [covariates_row (ex_loan (2005, 1, 1) (Some (25 / 4)) ''HI'') (Some (587 / 100))]) \<and>
   window_column ex_HPI ex_Rates ''HPI'' 0 2
     (remap_state [covariates_row (ex_loan (2005, 1, 1) (Some (25 / 4)) ''PR'') (Some (587 / 100))])
   = Inr [PyFloat (Some (9 / 10))]"
proof -
  let ?t = "[covariates_row (ex_loan (2005, 1, 1) (Some (25 / 4)) ''PR'') (Some (587 / 100))]"
  have h1: "0 < length ?t" by simp
  have h2: "STATE (?t ! 0) \<in> {''PR'', ''VI''}"
    by (simp add: covariates_row_def ex_loan_def)
  have u: "?t[0 := (?t ! 0)\<lparr>STATE := ''HI''\<rparr>]
             = [covariates_row (ex_loan (2005, 1, 1) (Some (25 / 4)) ''HI'') (Some (587 / 100))]"
    by (simp add: covariates_row_def ex_loan_def)
  have v: "window_column ex_HPI ex_Rates ''HPI'' 0 2 (remap_state ?t) = Inr [PyFloat (Some (9 / 10))]"
    by code_simp
  note T = remap_state_window_same [OF h1 h2, of ex_HPI ex_Rates "''HPI''" 0 2, unfolded u]
  from T h2 v show ?thesis
    by blast
qed

section \<open>Properties of the rate spread\<close>

lemma merge_left_set:
  "set (merge_left Rates d) =
     (if d \<in> fst ` set Rates then {c. (d, c) \<in> set Rates} else {None})"
proof (cases "filter (\<lambda>kv. fst kv = d) Rates")
  case Nil
  then have "\<forall>kv \<in> set Rates. fst kv \<noteq> d"
    by (simp add: filter_empty_conv)
  then have "d \<notin> fst ` set Rates" by auto
  with Nil show ?thesis by (simp add: merge_left_def)
next
  case (Cons m ms)
  then have "m \<in> set (filter (\<lambda>kv. fst kv = d) Rates)" by simp
  then have "d \<in> fst ` set Rates" by force
  moreover have "set (map snd (filter (\<lambda>kv. fst kv = d) Rates)) = {c. (d, c) \<in> set Rates}"
    by force
  ultimately show ?thesis using Cons by (simp add: merge_left_def)
qed

lemma merge_left_nonempty: "merge_left Rates d \<noteq> []"
  by (simp add: merge_left_def split: list.splits)

lemma covariates_set:
  "set (covariates Rates t) =
     {covariates_row l b | l b. l \<in> set t \<and> b \<in> set (merge_left Rates (ORIG_DTE l))}"
  by (auto simp add: covariates_def)

lemma truncate_covariates_row: "loan.truncate (covariates_row l b) = l"
  by (simp add: covariates_row_def loan.truncate_def)

lemma fsub_None: "fsub a b = None \<longleftrightarrow> a = None \<or> b = None"
  by (simp add: fsub_def split: option.splits)

text \<open>
  C6 (as amended). The left merge keeps every loan and adds no other. In every row of
  the merged table the benchmark rate is the rate cell of a row of the series dated
  exactly at the origination timestamp of the loan (the first day of its origination
  month; a row of the series dated at another day of that month is not found), or NaN
  when the series has no row at that date. SATO is the origination rate minus that
  benchmark rate when both are numbers, and it is NaN exactly when the origination rate
  of the loan is NaN or the benchmark rate of the row is NaN.
\<close>

theorem SATO_spread:
  "(\<forall>l \<in> set t. \<exists>r \<in> set (covariates Rates t). loan.truncate r = l) \<and>
   (\<forall>r \<in> set (covariates Rates t).
      loan.truncate r \<in> set t \<and>
      ((ORIG_DTE r, ORIG_BENCHMK r) \<in> set Rates \<or>
       ORIG_DTE r \<notin> fst ` set Rates \<and> ORIG_BENCHMK r = None) \<and>
      (\<forall>x y. ORIG_RT r = Some x \<and> ORIG_BENCHMK r = Some y \<longrightarrow> SATO r = Some (x - y)) \<and>
      (SATO r = None \<longleftrightarrow> ORIG_RT r = None \<or> ORIG_BENCHMK r = None))"
proof (intro conjI ballI)
  fix l assume l: "l \<in> set t"
  obtain b where "b \<in> set (merge_left Rates (ORIG_DTE l))"
    using merge_left_nonempty [of Rates "ORIG_DTE l"] by (cases "merge_left Rates (ORIG_DTE l)") auto
  with l have "covariates_row l b \<in> set (covariates Rates t)"
    unfolding covariates_set by blast
  then show "\<exists>r \<in> set (covariates Rates t). loan.truncate r = l"
    using truncate_covariates_row by blast
next
  fix r assume "r \<in> set (covariates Rates t)"
  then obtain l b where r: "r = covariates_row l b" and l: "l \<in> set t"
      and b: "b \<in> set (merge_left Rates (ORIG_DTE l))"
    unfolding covariates_set by blast
  have f: "ORIG_DTE r = ORIG_DTE l" "ORIG_RT r = ORIG_RT l" "ORIG_BENCHMK r = b" "SATO r = fsub (ORIG_RT l) b"
    by (simp_all add: r covariates_row_def)
  show "loan.truncate r \<in> set t"
    using l by (simp add: r truncate_covariates_row)
  show "(ORIG_DTE r, ORIG_BENCHMK r) \<in> set Rates \<or>
       ORIG_DTE r \<notin> fst ` set Rates \<and> ORIG_BENCHMK r = None"
    using b unfolding f merge_left_set by (auto split: if_splits)
  show "\<forall>x y. ORIG_RT r = Some x \<and> ORIG_BENCHMK r = Some y \<longrightarrow> SATO r = Some (x - y)"
    by (simp add: f fsub_def)
  show "(SATO r = None) = (ORIG_RT r = None \<or> ORIG_BENCHMK r = None)"
    by (simp add: f fsub_None)
qed

theorem SATO_missing_rate_counterexample:
  "((2005, 1, 1), Some (587 / 100)) \<in> set ex_Rates \<and>
   map SATO (covariates ex_Rates [ex_loan (2005, 1, 1) None ''FL'']) = [None] \<and>
   ((2005, 1, 15), Some (587 / 100)) \<in> set ex_Rates_mid \<and>
   same_month (2005, 1, 15) (2005, 1, 1) \<and>
   map SATO (covariates ex_Rates_mid [ex_loan (2005, 1, 1) (Some (25 / 4)) ''FL'']) = [None]"
  by code_simp

theorem SATO_spread_witness:
  "covariates_row (ex_loan (2005, 1, 1) (Some (25 / 4)) ''FL'') (Some (587 / 100))
     \<in> set (covariates ex_Rates [ex_loan (2005, 1, 1) (Some (25 / 4)) ''FL'']) \<and>
   ORIG_RT (covariates_row (ex_loan (2005, 1, 1) (Some (25 / 4)) ''FL'') (Some (587 / 100)))
     = Some (25 / 4) \<and>
   ORIG_BENCHMK (covariates_row (ex_loan (2005, 1, 1) (Some (25 / 4)) ''FL'') (Some (587 / 100)))
     = Some (587 / 100) \<and>
   SATO (covariates_row (ex_loan (2005, 1, 1) (Some (25 / 4)) ''FL'') (Some (587 / 100)))
     = Some (25 / 4 - 587 / 100)"
proof -
  let ?r = "covariates_row (ex_loan (2005, 1, 1) (Some (25 / 4)) ''FL'') (Some (587 / 100))"
  let ?t = "[ex_loan (2005, 1, 1) (Some (25 / 4)) ''FL'']"
  have h: "?r \<in> set (covariates ex_Rates ?t)"
    by (simp add: covariates_def merge_left_def ex_Rates_def ex_loan_def)
  have a: "ORIG_RT ?r = Some (25 / 4)"
    by (simp add: covariates_row_def ex_loan_def)
  have b: "ORIG_BENCHMK ?r = Some (587 / 100)"
    by (simp add: covariates_row_def ex_loan_def)
  from SATO_spread [of ?t ex_Rates] h
  have "\<forall>x y. ORIG_RT ?r = Some x \<and> ORIG_BENCHMK ?r = Some y \<longrightarrow> SATO ?r = Some (x - y)"
    by blast
  with a b have "SATO ?r = Some (25 / 4 - 587 / 100)" by blast
  with h a b show ?thesis by blast
qed

section \<open>Properties of the bucketed imputation\<close>

lemma filter_upt_split:
  assumes "i < n" and "P i"
  shows "filter P [0..<n] = filter P [0..<i] @ i # filter P [Suc i..<n]"
proof -
  have "[0..<n] = [0..<i] @ i # [Suc i..<n]"
    using assms(1) by (metis less_imp_le_nat upt_add_eq_append upt_conv_Cons le0 le_add_diff_inverse)
  then show ?thesis using assms(2) by simp
qed

lemma filter_upt_nth:
  assumes "i < n" and "P i"
  shows "filter P [0..<n] ! length (filter P [0..<i]) = i"
  using filter_upt_split [of i n P] assms by (simp add: nth_append)

lemma filter_upt_pos:
  assumes "i < n" and "P i"
  shows "length (filter P [0..<i]) < length (filter P [0..<n])"
  using filter_upt_split [of i n P] assms by simp

lemma fillna_nth: "p < length xs \<Longrightarrow> fillna xs m ! p = (case xs ! p of None \<Rightarrow> m | Some v \<Rightarrow> Some v)"
  by (simp add: fillna_def)

lemma groupby_apply_length: "length (groupby_apply keys col f) = length col"
  by (simp add: groupby_apply_def)

lemma groupby_fill_mean_nth:
  assumes "i < length col"
  shows "groupby_apply keys col fill_mean ! i =
           (case col ! i of
              None \<Rightarrow> mean (map (\<lambda>j. col ! j) (filter (\<lambda>j. keys ! j = keys ! i) [0..<length col]))
            | Some v \<Rightarrow> Some v)"
proof -
  let ?P = "\<lambda>j. keys ! j = keys ! i"
  let ?g = "filter ?P [0..<length col]"
  let ?p = "length (filter ?P [0..<i])"
  have p: "?p < length ?g" using assms by (intro filter_upt_pos) simp_all
  have gi: "?g ! ?p = i" using assms by (intro filter_upt_nth) simp_all
  have "groupby_apply keys col fill_mean ! i = fill_mean (map (\<lambda>j. col ! j) ?g) ! ?p"
    using assms by (simp add: groupby_apply_def)
  also have "\<dots> = (case map (\<lambda>j. col ! j) ?g ! ?p of None \<Rightarrow> mean (map (\<lambda>j. col ! j) ?g) | Some v \<Rightarrow> Some v)"
    unfolding fill_mean_def using p by (intro fillna_nth) simp
  also have "map (\<lambda>j. col ! j) ?g ! ?p = col ! i"
    using p gi by simp
  finally show ?thesis .
qed

lemma py_map_total:
  "(\<And>x. x \<in> set xs \<Longrightarrow> f x = Inr (g x)) \<Longrightarrow> py_map f xs = Inr (map g xs)"
  by (induction xs) simp_all

lemma py_times_NaN: "py_times f k = NaN \<longleftrightarrow> f = NaN"
  by (cases f) (simp_all add: py_times_def)

lemma py_round_NaN: "py_round c = NaN \<longleftrightarrow> c = None"
  by (cases c) (simp_all add: py_round_def)

lemma py_div_None: "py_div dt c k = None \<longleftrightarrow> c = None"
  by (cases dt) (simp_all add: py_div_def)

lemma Buckets_CSCORE:
  "x < length (rows table) \<Longrightarrow>
   Buckets table x ''CSCORE'' =
     Inr (Some (OCLTV_Rate
       (py_str (py_times (py_round
          (case OCLTV (rows table ! x) of
             None \<Rightarrow> py_div float64 (mean (map OCLTV (rows table))) 20
           | Some v \<Rightarrow> py_div (OCLTV_dtype table) (Some v) 20)) 20))
       (py_str (py_round (ORIG_RT (rows table ! x))))))"
  by (simp add: Buckets_def Let_def py_times_NaN py_round_NaN py_div_None split: option.splits)

lemma Buckets_FICO:
  "x < length (rows table) \<Longrightarrow> fillVar = ''DTI'' \<or> fillVar = ''OCLTV'' \<Longrightarrow>
   Buckets table x fillVar =
     Inr (Some (FICO_Rate
       (py_str (py_times (py_round
          (case CSCORE_B (rows table ! x) of
             None \<Rightarrow> py_div float64 (mean (map CSCORE_B (rows table))) 50
           | Some v \<Rightarrow> py_div (CSCORE_B_dtype table) (Some v) 50)) 50))
       (py_str (py_round (ORIG_RT (rows table ! x))))))"
proof -
  assume x: "x < length (rows table)" and fv: "fillVar = ''DTI'' \<or> fillVar = ''OCLTV''"
  from fv have a: "fillVar \<noteq> ''CSCORE''" by auto
  show ?thesis
    unfolding Buckets_def using x a fv
    by (simp add: Let_def py_times_NaN py_round_NaN py_div_None split: option.splits)
qed

lemma Buckets_isr:
  assumes "x < length (rows t)" and "fv \<in> {''CSCORE'', ''DTI'', ''OCLTV''}"
  shows "Buckets t x fv = Inr (projr (Buckets t x fv))"
proof -
  from assms(2) have "fv = ''CSCORE'' \<or> (fv = ''DTI'' \<or> fv = ''OCLTV'')" by blast
  then show ?thesis
  proof
    assume "fv = ''CSCORE''"
    then show ?thesis using Buckets_CSCORE [OF assms(1)] by simp
  next
    assume "fv = ''DTI'' \<or> fv = ''OCLTV''"
    then show ?thesis using Buckets_FICO [OF assms(1)] by simp
  qed
qed

lemma py_map_Buckets:
  assumes "fv \<in> {''CSCORE'', ''DTI'', ''OCLTV''}"
  shows "py_map (\<lambda>x. Buckets t x fv) [0..<length (rows t)]
           = Inr (map (\<lambda>x. projr (Buckets t x fv)) [0..<length (rows t)])"
  using assms by (intro py_map_total Buckets_isr) simp_all

lemma group_cell:
  assumes fv: "fv \<in> {''CSCORE'', ''DTI'', ''OCLTV''}" and i: "i < length (rows t)"
  shows "groupby_apply (map (\<lambda>x. projr (Buckets t x fv)) [0..<length (rows t)]) (map field (rows t)) fill_mean ! i
           = imputed_cell t fv field i"
proof -
  let ?keys = "map (\<lambda>x. projr (Buckets t x fv)) [0..<length (rows t)]"
  have same: "(?keys ! j = ?keys ! i) = (Buckets t j fv = Buckets t i fv)" if "j < length (rows t)" for j
  proof -
    have kj: "?keys ! j = projr (Buckets t j fv)" using that by simp
    have ki: "?keys ! i = projr (Buckets t i fv)" using i by simp
    show ?thesis
      unfolding kj ki using Buckets_isr [OF that fv] Buckets_isr [OF i fv] by metis
  qed
  have mates: "filter (\<lambda>j. ?keys ! j = ?keys ! i) [0..<length (map field (rows t))] = bucket_mates t fv i"
    unfolding bucket_mates_def using same by (intro filter_cong) simp_all
  have vals: "map (\<lambda>j. map field (rows t) ! j) (bucket_mates t fv i)
                = map (\<lambda>j. field (rows t ! j)) (bucket_mates t fv i)"
    by (intro map_cong) (simp_all add: bucket_mates_def)
  have "groupby_apply ?keys (map field (rows t)) fill_mean ! i =
          (case map field (rows t) ! i of
             None \<Rightarrow> mean (map (\<lambda>j. map field (rows t) ! j)
                                (filter (\<lambda>j. ?keys ! j = ?keys ! i) [0..<length (map field (rows t))]))
           | Some v \<Rightarrow> Some v)"
    using i by (intro groupby_fill_mean_nth) simp
  then show ?thesis unfolding mates vals imputed_cell_def using i by simp
qed

lemma fill_CSCORE_rows:
  "\<exists>t'. fill_CSCORE t = Inr t' \<and> length (rows t') = length (rows t) \<and>
        OCLTV_dtype t' = OCLTV_dtype t \<and> CSCORE_B_dtype t' = CSCORE_B_dtype t \<and>
        (\<forall>i < length (rows t). rows t' ! i = (rows t ! i)\<lparr>CSCORE_B := imputed_cell t ''CSCORE'' CSCORE_B i\<rparr>)"
  unfolding fill_CSCORE_def
  by (simp add: py_map_Buckets groupby_apply_length group_cell)

lemma fill_DTI_rows:
  "\<exists>t'. fill_DTI t = Inr t' \<and> length (rows t') = length (rows t) \<and>
        OCLTV_dtype t' = OCLTV_dtype t \<and> CSCORE_B_dtype t' = CSCORE_B_dtype t \<and>
        (\<forall>i < length (rows t). rows t' ! i = (rows t ! i)\<lparr>DTI := imputed_cell t ''DTI'' DTI i\<rparr>)"
  unfolding fill_DTI_def
  by (simp add: py_map_Buckets groupby_apply_length group_cell)

lemma fill_OCLTV_rows:
  "\<exists>t'. fill_OCLTV t = Inr t' \<and> length (rows t') = length (rows t) \<and>
        OCLTV_dtype t' = OCLTV_dtype t \<and> CSCORE_B_dtype t' = CSCORE_B_dtype t \<and>
        (\<forall>i < length (rows t). rows t' ! i = (rows t ! i)\<lparr>OCLTV := imputed_cell t ''OCLTV'' OCLTV i\<rparr>)"
  unfolding fill_OCLTV_def
  by (simp add: py_map_Buckets groupby_apply_length group_cell)

lemma dropna_present: "dropna xs = present xs"
  by (induction xs) (auto simp add: dropna_def present_def split: option.splits)

lemma mean_present:
  "mean xs = (if present xs = [] then None
              else Some (sum_list (present xs) / of_nat (length (present xs))))"
  by (simp add: mean_def Let_def dropna_present)

lemma present_empty: "present xs = [] \<longleftrightarrow> (\<forall>x \<in> set xs. x = None)"
  by (auto simp add: present_def filter_empty_conv)

lemma mean_None: "mean xs = None \<longleftrightarrow> (\<forall>x \<in> set xs. x = None)"
  by (simp add: mean_present present_empty)

lemma imputed_cell_missing:
  assumes "field (rows t ! i) = None"
  shows "imputed_cell t fv field i =
           (if bucket_values t fv field i = [] then None
            else Some (sum_list (bucket_values t fv field i) / of_nat (length (bucket_values t fv field i))))"
  using assms unfolding imputed_cell_def bucket_values_def by (simp add: mean_present)

lemma imputed_cell_present: "field (rows t ! i) \<noteq> None \<Longrightarrow> imputed_cell t fv field i = field (rows t ! i)"
  by (auto simp add: imputed_cell_def)

lemma imputed_cell_all_missing:
  assumes "\<forall>j < length (rows t). field (rows t ! j) = None" and "i < length (rows t)"
  shows "imputed_cell t fv field i = None"
proof -
  have "\<forall>x \<in> set (map (\<lambda>j. field (rows t ! j)) (bucket_mates t fv i)). x = None"
    using assms(1) by (auto simp add: bucket_mates_def)
  then have "mean (map (\<lambda>j. field (rows t ! j)) (bucket_mates t fv i)) = None"
    using mean_None [of "map (\<lambda>j. field (rows t ! j)) (bucket_mates t fv i)"] by blast
  with assms show ?thesis by (simp add: imputed_cell_def)
qed

lemma fill_DTI_global_rows:
  "rows (fill_DTI_global t) =
     map (\<lambda>r. r\<lparr>DTI := (case DTI r of None \<Rightarrow> mean (map DTI (rows t)) | Some v \<Rightarrow> Some v)\<rparr>) (rows t)"
  by (simp add: fill_DTI_global_def fillna_def zip_map2 zip_same_conv_map)

text \<open>
  C4. In each of the three bucketed passes, a row whose target field is missing and whose
  bucket holds at least one value of that field gets the arithmetic mean of the values of
  the field that are not missing among the rows with its bucket key (exactly, on the
  rationals that stand for the floats).
\<close>

theorem fill_mean_bucket_mean:
  assumes i: "i < length (rows t)"
  shows "(CSCORE_B (rows t ! i) = None \<and> bucket_values t ''CSCORE'' CSCORE_B i \<noteq> [] \<longrightarrow>
            (\<exists>t'. fill_CSCORE t = Inr t' \<and> length (rows t') = length (rows t) \<and>
               CSCORE_B (rows t' ! i) = Some (sum_list (bucket_values t ''CSCORE'' CSCORE_B i)
                                          / of_nat (length (bucket_values t ''CSCORE'' CSCORE_B i))))) \<and>
         (DTI (rows t ! i) = None \<and> bucket_values t ''DTI'' DTI i \<noteq> [] \<longrightarrow>
            (\<exists>t'. fill_DTI t = Inr t' \<and> length (rows t') = length (rows t) \<and>
               DTI (rows t' ! i) = Some (sum_list (bucket_values t ''DTI'' DTI i)
                                     / of_nat (length (bucket_values t ''DTI'' DTI i))))) \<and>
         (OCLTV (rows t ! i) = None \<and> bucket_values t ''OCLTV'' OCLTV i \<noteq> [] \<longrightarrow>
            (\<exists>t'. fill_OCLTV t = Inr t' \<and> length (rows t') = length (rows t) \<and>
               OCLTV (rows t' ! i) = Some (sum_list (bucket_values t ''OCLTV'' OCLTV i)
                                       / of_nat (length (bucket_values t ''OCLTV'' OCLTV i)))))"
proof (intro conjI impI)
  assume a: "CSCORE_B (rows t ! i) = None \<and> bucket_values t ''CSCORE'' CSCORE_B i \<noteq> []"
  obtain t' where t': "fill_CSCORE t = Inr t'" "length (rows t') = length (rows t)"
      "\<forall>i < length (rows t). rows t' ! i = (rows t ! i)\<lparr>CSCORE_B := imputed_cell t ''CSCORE'' CSCORE_B i\<rparr>"
    using fill_CSCORE_rows [of t] by blast
  from t'(3) i have "CSCORE_B (rows t' ! i) = imputed_cell t ''CSCORE'' CSCORE_B i" by simp
  with a t' show "\<exists>t'. fill_CSCORE t = Inr t' \<and> length (rows t') = length (rows t) \<and>
               CSCORE_B (rows t' ! i) = Some (sum_list (bucket_values t ''CSCORE'' CSCORE_B i)
                                          / of_nat (length (bucket_values t ''CSCORE'' CSCORE_B i)))"
    by (simp add: imputed_cell_missing)
next
  assume a: "DTI (rows t ! i) = None \<and> bucket_values t ''DTI'' DTI i \<noteq> []"
  obtain t' where t': "fill_DTI t = Inr t'" "length (rows t') = length (rows t)"
      "\<forall>i < length (rows t). rows t' ! i = (rows t ! i)\<lparr>DTI := imputed_cell t ''DTI'' DTI i\<rparr>"
    using fill_DTI_rows [of t] by blast
  from t'(3) i have "DTI (rows t' ! i) = imputed_cell t ''DTI'' DTI i" by simp
  with a t' show "\<exists>t'. fill_DTI t = Inr t' \<and> length (rows t') = length (rows t) \<and>
               DTI (rows t' ! i) = Some (sum_list (bucket_values t ''DTI'' DTI i)
                                     / of_nat (length (bucket_values t ''DTI'' DTI i)))"
    by (simp add: imputed_cell_missing)
next
  assume a: "OCLTV (rows t ! i) = None \<and> bucket_values t ''OCLTV'' OCLTV i \<noteq> []"
  obtain t' where t': "fill_OCLTV t = Inr t'" "length (rows t') = length (rows t)"
      "\<forall>i < length (rows t). rows t' ! i = (rows t ! i)\<lparr>OCLTV := imputed_cell t ''OCLTV'' OCLTV i\<rparr>"
    using fill_OCLTV_rows [of t] by blast
  from t'(3) i have "OCLTV (rows t' ! i) = imputed_cell t ''OCLTV'' OCLTV i" by simp
  with a t' show "\<exists>t'. fill_OCLTV t = Inr t' \<and> length (rows t') = length (rows t) \<and>
               OCLTV (rows t' ! i) = Some (sum_list (bucket_values t ''OCLTV'' OCLTV i)
                                       / of_nat (length (bucket_values t ''OCLTV'' OCLTV i)))"
    by (simp add: imputed_cell_missing)
qed

theorem fill_mean_bucket_mean_witness:
  "wf_frame (ex_scores int64) \<and>
   CSCORE_B (rows (ex_scores int64) ! 0) = None \<and>
   bucket_mates (ex_scores int64) ''CSCORE'' 0 = [0, 2] \<and>
   bucket_values (ex_scores int64) ''CSCORE'' CSCORE_B 0 = [720] \<and>
   (\<exists>t'. fill_CSCORE (ex_scores int64) = Inr t' \<and>
         length (rows t') = length (rows (ex_scores int64)) \<and> CSCORE_B (rows t' ! 0) = Some 720) \<and>
   wf_frame (ex_scores float64) \<and>
   CSCORE_B (rows (ex_scores float64) ! 0) = None \<and>
   bucket_mates (ex_scores float64) ''CSCORE'' 0 = [0, 1, 2] \<and>
   bucket_values (ex_scores float64) ''CSCORE'' CSCORE_B 0 = [700, 720] \<and>
   (\<exists>t'. fill_CSCORE (ex_scores float64) = Inr t' \<and>
         length (rows t') = length (rows (ex_scores float64)) \<and> CSCORE_B (rows t' ! 0) = Some 710)"
proof -
  have wi: "wf_frame (ex_scores int64)" by code_simp
  have hi: "0 < length (rows (ex_scores int64))" by code_simp
  have ai: "CSCORE_B (rows (ex_scores int64) ! 0) = None" by code_simp
  have mi: "bucket_mates (ex_scores int64) ''CSCORE'' 0 = [0, 2]" by code_simp
  have bi: "bucket_values (ex_scores int64) ''CSCORE'' CSCORE_B 0 = [720]" by code_simp
  have ci: "sum_list [720] / of_nat (length [720 :: rat]) = (720 :: rat)" by simp
  have ni: "bucket_values (ex_scores int64) ''CSCORE'' CSCORE_B 0 \<noteq> []" unfolding bi by simp
  from fill_mean_bucket_mean [OF hi] ai ni
  have "\<exists>t'. fill_CSCORE (ex_scores int64) = Inr t' \<and>
              length (rows t') = length (rows (ex_scores int64)) \<and>
              CSCORE_B (rows t' ! 0)
                = Some (sum_list (bucket_values (ex_scores int64) ''CSCORE'' CSCORE_B 0)
                        / of_nat (length (bucket_values (ex_scores int64) ''CSCORE'' CSCORE_B 0)))"
    by blast
  then have ri: "\<exists>t'. fill_CSCORE (ex_scores int64) = Inr t' \<and>
         length (rows t') = length (rows (ex_scores int64)) \<and> CSCORE_B (rows t' ! 0) = Some 720"
    unfolding bi ci .
  have wf: "wf_frame (ex_scores float64)" by code_simp
  have hf: "0 < length (rows (ex_scores float64))" by code_simp
  have af: "CSCORE_B (rows (ex_scores float64) ! 0) = None" by code_simp
  have mf: "bucket_mates (ex_scores float64) ''CSCORE'' 0 = [0, 1, 2]" by code_simp
  have bf: "bucket_values (ex_scores float64) ''CSCORE'' CSCORE_B 0 = [700, 720]" by code_simp
  have cf: "sum_list [700, 720] / of_nat (length [700, 720 :: rat]) = (710 :: rat)" by simp
  have nf: "bucket_values (ex_scores float64) ''CSCORE'' CSCORE_B 0 \<noteq> []" unfolding bf by simp
  from fill_mean_bucket_mean [OF hf] af nf
  have "\<exists>t'. fill_CSCORE (ex_scores float64) = Inr t' \<and>
              length (rows t') = length (rows (ex_scores float64)) \<and>
              CSCORE_B (rows t' ! 0)
                = Some (sum_list (bucket_values (ex_scores float64) ''CSCORE'' CSCORE_B 0)
                        / of_nat (length (bucket_values (ex_scores float64) ''CSCORE'' CSCORE_B 0)))"
    by blast
  then have rf: "\<exists>t'. fill_CSCORE (ex_scores float64) = Inr t' \<and>
         length (rows t') = length (rows (ex_scores float64)) \<and> CSCORE_B (rows t' ! 0) = Some 710"
    unfolding bf cf .
  from wi ai mi bi ri wf af mf bf rf show ?thesis by blast
qed

text \<open>
  C3 (as amended). For every row of the table and each of the three fill variables,
  \<open>Buckets\<close> returns a key, so every record resolves to some bucket. The first part of
  the key is the text of the first bucketing field (OCLTV for \<^verbatim>\<open>'CSCORE'\<close>, the credit
  score for \<^verbatim>\<open>'DTI'\<close> and \<^verbatim>\<open>'OCLTV'\<close>) divided by its granularity (20 or 50),
  rounded and multiplied back; when that field is missing, the mean of its column takes
  its place, with the true division. A present cell is divided as its column's dtype
  says: the floor division for \<^verbatim>\<open>int64\<close>. The second part is the text of the rounded
  origination rate, for which nothing is substituted: it is \<^verbatim>\<open>nan\<close> when the rate is
  missing.
\<close>

theorem Buckets_key:
  assumes "x < length (rows table)"
  shows "Buckets table x ''CSCORE'' =
           Inr (Some (OCLTV_Rate
             (py_str (py_times (py_round
                (case OCLTV (rows table ! x) of
                   None \<Rightarrow> py_div float64 (mean (map OCLTV (rows table))) 20
                 | Some v \<Rightarrow> py_div (OCLTV_dtype table) (Some v) 20)) 20))
             (py_str (py_round (ORIG_RT (rows table ! x)))))) \<and>
         Buckets table x ''DTI'' =
           Inr (Some (FICO_Rate
             (py_str (py_times (py_round
                (case CSCORE_B (rows table ! x) of
                   None \<Rightarrow> py_div float64 (mean (map CSCORE_B (rows table))) 50
                 | Some v \<Rightarrow> py_div (CSCORE_B_dtype table) (Some v) 50)) 50))
             (py_str (py_round (ORIG_RT (rows table ! x)))))) \<and>
         Buckets table x ''OCLTV'' = Buckets table x ''DTI'' \<and>
         (ORIG_RT (rows table ! x) = None \<longrightarrow>
            (\<exists>a b. Buckets table x ''CSCORE'' = Inr (Some (OCLTV_Rate a Tnan)) \<and>
                   Buckets table x ''DTI'' = Inr (Some (FICO_Rate b Tnan))))"
proof -
  have nan: "py_str (py_round None) = Tnan"
    by (simp add: py_str_def py_round_def)
  show ?thesis
    using Buckets_CSCORE [OF assms] Buckets_FICO [OF assms, of "''DTI''"]
      Buckets_FICO [OF assms, of "''OCLTV''"]
    by (simp add: nan)
qed

theorem Buckets_missing_rate_counterexample:
  "ORIG_RT (rows ex_norate ! 0) = None \<and>
   py_str (py_round (mean (map ORIG_RT (rows ex_norate)))) = Tnum 6 \<and>
   Buckets ex_norate 0 ''CSCORE'' = Inr (Some (OCLTV_Rate (Tnum 40) Tnan)) \<and>
   Buckets ex_norate 0 ''DTI'' = Inr (Some (FICO_Rate (Tnum 700) Tnan))"
  by code_simp

theorem Buckets_key_witness:
  "wf_frame ex_norate \<and>
   OCLTV (rows ex_norate ! 1) = None \<and>
   mean (map OCLTV (rows ex_norate)) = Some 39 \<and>
   Buckets ex_norate 1 ''CSCORE'' = Inr (Some (OCLTV_Rate (Tnum 40) (Tnum 6))) \<and>
   wf_frame (ex_scores int64) \<and>
   OCLTV (rows (ex_scores int64) ! 0) = Some 39 \<and>
   Buckets (ex_scores int64) 0 ''CSCORE'' = Inr (Some (OCLTV_Rate (Tnum 20) (Tnum 6)))"
proof -
  have w: "wf_frame ex_norate" by code_simp
  have h: "1 < length (rows ex_norate)" by code_simp
  have a: "OCLTV (rows ex_norate ! 1) = None" by code_simp
  have b: "mean (map OCLTV (rows ex_norate)) = Some 39" by code_simp
  have c: "py_str (py_times (py_round (py_div float64 (Some 39) 20)) 20) = Tnum 40" by code_simp
  have d: "py_str (py_round (ORIG_RT (rows ex_norate ! 1))) = Tnum 6" by code_simp
  from Buckets_key [OF h] have "Buckets ex_norate 1 ''CSCORE'' =
           Inr (Some (OCLTV_Rate
             (py_str (py_times (py_round
                (case OCLTV (rows ex_norate ! 1) of
                   None \<Rightarrow> py_div float64 (mean (map OCLTV (rows ex_norate))) 20
                 | Some v \<Rightarrow> py_div (OCLTV_dtype ex_norate) (Some v) 20)) 20))
             (py_str (py_round (ORIG_RT (rows ex_norate ! 1))))))"
    by blast
  then have k1: "Buckets ex_norate 1 ''CSCORE'' = Inr (Some (OCLTV_Rate (Tnum 40) (Tnum 6)))"
    unfolding a b d by (simp only: option.case c)
  have w': "wf_frame (ex_scores int64)" by code_simp
  have h': "0 < length (rows (ex_scores int64))" by code_simp
  have a': "OCLTV (rows (ex_scores int64) ! 0) = Some 39" by code_simp
  have t': "OCLTV_dtype (ex_scores int64) = int64" by code_simp
  have c': "py_str (py_times (py_round (py_div int64 (Some 39) 20)) 20) = Tnum 20" by code_simp
  have d': "py_str (py_round (ORIG_RT (rows (ex_scores int64) ! 0))) = Tnum 6" by code_simp
  from Buckets_key [OF h'] have "Buckets (ex_scores int64) 0 ''CSCORE'' =
           Inr (Some (OCLTV_Rate
             (py_str (py_times (py_round
                (case OCLTV (rows (ex_scores int64) ! 0) of
                   None \<Rightarrow> py_div float64 (mean (map OCLTV (rows (ex_scores int64)))) 20
                 | Some v \<Rightarrow> py_div (OCLTV_dtype (ex_scores int64)) (Some v) 20)) 20))
             (py_str (py_round (ORIG_RT (rows (ex_scores int64) ! 0))))))"
    by blast
  then have k2: "Buckets (ex_scores int64) 0 ''CSCORE'' = Inr (Some (OCLTV_Rate (Tnum 20) (Tnum 6)))"
    unfolding a' t' d' by (simp only: option.case c')
  from w a b k1 w' a' k2 show ?thesis by blast
qed

text \<open>
  C2 (as amended). The imputation never fails and keeps the rows. After the three bucketed
  passes the sample mean is imputed once, to the column DTI only: a DTI still missing
  after the bucketed passes becomes the arithmetic mean of the DTI values that the column
  then holds, so that afterwards no DTI is missing unless the whole DTI column was empty,
  in which case it stays empty. The credit scores and the OCLTV are what their bucketed
  passes left: a credit score or an OCLTV that is missing when its pass runs, in a bucket
  without any value of that field, is still missing at the end.
\<close>

theorem impute_DTI_complete:
  "\<exists>t1 t2 t3 t'.
      fill_CSCORE t = Inr t1 \<and> fill_DTI t1 = Inr t2 \<and> fill_OCLTV t2 = Inr t3 \<and>
      impute t = Inr t' \<and> length (rows t') = length (rows t) \<and>
      (\<forall>i < length (rows t).
         CSCORE_B (rows t' ! i) = CSCORE_B (rows t1 ! i) \<and>
         OCLTV (rows t' ! i) = OCLTV (rows t3 ! i) \<and>
         (CSCORE_B (rows t ! i) = None \<and> bucket_values t ''CSCORE'' CSCORE_B i = []
            \<longrightarrow> CSCORE_B (rows t' ! i) = None) \<and>
         (OCLTV (rows t2 ! i) = None \<and> bucket_values t2 ''OCLTV'' OCLTV i = []
            \<longrightarrow> OCLTV (rows t' ! i) = None) \<and>
         (DTI (rows t3 ! i) \<noteq> None \<longrightarrow> DTI (rows t' ! i) = DTI (rows t3 ! i)) \<and>
         (DTI (rows t3 ! i) = None \<and> present (map DTI (rows t3)) \<noteq> []
            \<longrightarrow> DTI (rows t' ! i) = Some (sum_list (present (map DTI (rows t3)))
                                           / of_nat (length (present (map DTI (rows t3))))))) \<and>
      ((\<exists>r \<in> set (rows t). DTI r \<noteq> None) \<longrightarrow> (\<forall>r \<in> set (rows t'). DTI r \<noteq> None)) \<and>
      ((\<forall>r \<in> set (rows t). DTI r = None) \<longrightarrow> (\<forall>r \<in> set (rows t'). DTI r = None))"
proof -
  obtain t1 where t1: "fill_CSCORE t = Inr t1" "length (rows t1) = length (rows t)"
      "\<forall>i < length (rows t). rows t1 ! i = (rows t ! i)\<lparr>CSCORE_B := imputed_cell t ''CSCORE'' CSCORE_B i\<rparr>"
    using fill_CSCORE_rows [of t] by blast
  obtain t2 where t2: "fill_DTI t1 = Inr t2" "length (rows t2) = length (rows t1)"
      "\<forall>i < length (rows t1). rows t2 ! i = (rows t1 ! i)\<lparr>DTI := imputed_cell t1 ''DTI'' DTI i\<rparr>"
    using fill_DTI_rows [of t1] by blast
  obtain t3 where t3: "fill_OCLTV t2 = Inr t3" "length (rows t3) = length (rows t2)"
      "\<forall>i < length (rows t2). rows t3 ! i = (rows t2 ! i)\<lparr>OCLTV := imputed_cell t2 ''OCLTV'' OCLTV i\<rparr>"
    using fill_OCLTV_rows [of t2] by blast
  let ?t' = "fill_DTI_global t3"
  let ?m = "mean (map DTI (rows t3))"
  have res: "impute t = Inr ?t'"
    by (simp add: impute_def t1 t2 t3)
  have len: "length (rows ?t') = length (rows t)"
    by (simp add: fill_DTI_global_rows t1 t2 t3)
  have row: "rows ?t' ! i = (rows t3 ! i)\<lparr>DTI := (case DTI (rows t3 ! i) of None \<Rightarrow> ?m | Some v \<Rightarrow> Some v)\<rparr>"
    if "i < length (rows t)" for i
    using that t1(2) t2(2) t3(2) by (simp add: fill_DTI_global_rows)
  have c1: "CSCORE_B (rows t1 ! i) = imputed_cell t ''CSCORE'' CSCORE_B i" if "i < length (rows t)" for i
    using that t1(3) by simp
  have c': "CSCORE_B (rows ?t' ! i) = CSCORE_B (rows t1 ! i)" if "i < length (rows t)" for i
    using that row [OF that] t1(2) t2(2) t2(3) t3(3) by simp
  have o3: "OCLTV (rows t3 ! i) = imputed_cell t2 ''OCLTV'' OCLTV i" if "i < length (rows t)" for i
    using that t1(2) t2(2) t3(3) by simp
  have o': "OCLTV (rows ?t' ! i) = OCLTV (rows t3 ! i)" if "i < length (rows t)" for i
    using row [OF that] by simp
  have d1: "DTI (rows t1 ! i) = DTI (rows t ! i)" if "i < length (rows t)" for i
    using that t1(3) by simp
  have d3: "DTI (rows t3 ! i) = imputed_cell t1 ''DTI'' DTI i" if "i < length (rows t)" for i
    using that t1(2) t2(2) t2(3) t3(3) by simp
  have d': "DTI (rows ?t' ! i) = (case DTI (rows t3 ! i) of None \<Rightarrow> ?m | Some v \<Rightarrow> Some v)"
    if "i < length (rows t)" for i
    using row [OF that] by simp
  have cells: "CSCORE_B (rows ?t' ! i) = CSCORE_B (rows t1 ! i) \<and>
         OCLTV (rows ?t' ! i) = OCLTV (rows t3 ! i) \<and>
         (CSCORE_B (rows t ! i) = None \<and> bucket_values t ''CSCORE'' CSCORE_B i = []
            \<longrightarrow> CSCORE_B (rows ?t' ! i) = None) \<and>
         (OCLTV (rows t2 ! i) = None \<and> bucket_values t2 ''OCLTV'' OCLTV i = []
            \<longrightarrow> OCLTV (rows ?t' ! i) = None) \<and>
         (DTI (rows t3 ! i) \<noteq> None \<longrightarrow> DTI (rows ?t' ! i) = DTI (rows t3 ! i)) \<and>
         (DTI (rows t3 ! i) = None \<and> present (map DTI (rows t3)) \<noteq> []
            \<longrightarrow> DTI (rows ?t' ! i) = Some (sum_list (present (map DTI (rows t3)))
                                           / of_nat (length (present (map DTI (rows t3))))))"
    if i: "i < length (rows t)" for i
  proof (intro conjI impI)
    show "CSCORE_B (rows ?t' ! i) = CSCORE_B (rows t1 ! i)" by (rule c' [OF i])
    show "OCLTV (rows ?t' ! i) = OCLTV (rows t3 ! i)" by (rule o' [OF i])
    show "CSCORE_B (rows ?t' ! i) = None"
      if "CSCORE_B (rows t ! i) = None \<and> bucket_values t ''CSCORE'' CSCORE_B i = []"
      using that by (simp add: c' [OF i] c1 [OF i] imputed_cell_missing)
    show "OCLTV (rows ?t' ! i) = None"
      if "OCLTV (rows t2 ! i) = None \<and> bucket_values t2 ''OCLTV'' OCLTV i = []"
      using that by (simp add: o' [OF i] o3 [OF i] imputed_cell_missing)
    show "DTI (rows ?t' ! i) = DTI (rows t3 ! i)" if "DTI (rows t3 ! i) \<noteq> None"
      using that by (auto simp add: d' [OF i])
    show "DTI (rows ?t' ! i) = Some (sum_list (present (map DTI (rows t3)))
                                           / of_nat (length (present (map DTI (rows t3)))))"
      if "DTI (rows t3 ! i) = None \<and> present (map DTI (rows t3)) \<noteq> []"
      using that by (simp add: d' [OF i] mean_present)
  qed
  have some: "\<forall>r \<in> set (rows ?t'). DTI r \<noteq> None" if "\<exists>r \<in> set (rows t). DTI r \<noteq> None"
  proof -
    from that obtain i where i: "i < length (rows t)" "DTI (rows t ! i) \<noteq> None"
      by (auto simp add: in_set_conv_nth)
    then have "DTI (rows t1 ! i) \<noteq> None" by (simp add: d1)
    then have "imputed_cell t1 ''DTI'' DTI i \<noteq> None" by (simp add: imputed_cell_present)
    then have "DTI (rows t3 ! i) \<noteq> None" using i(1) by (simp add: d3)
    moreover have "rows t3 ! i \<in> set (rows t3)" using i(1) t1(2) t2(2) t3(2) by simp
    ultimately have "\<not> (\<forall>x \<in> set (map DTI (rows t3)). x = None)" by auto
    then have m: "?m \<noteq> None"
      using mean_None [of "map DTI (rows t3)"] by blast
    show ?thesis
      unfolding fill_DTI_global_rows using m by (auto split: option.splits)
  qed
  have none: "\<forall>r \<in> set (rows ?t'). DTI r = None" if "\<forall>r \<in> set (rows t). DTI r = None"
  proof -
    have a1: "\<forall>j < length (rows t1). DTI (rows t1 ! j) = None"
      using that t1(2) d1 by simp
    have a3: "\<forall>j < length (rows t3). DTI (rows t3 ! j) = None"
      using a1 t1(2) t2(2) t3(2) d3 imputed_cell_all_missing [OF a1] by simp
    then have "\<forall>x \<in> set (map DTI (rows t3)). x = None"
      by (auto simp add: in_set_conv_nth)
    then have m: "?m = None"
      using mean_None [of "map DTI (rows t3)"] by blast
    show ?thesis
      unfolding fill_DTI_global_rows using m a3 by (auto simp add: in_set_conv_nth)
  qed
  from t1(1) t2(1) t3(1) res len cells some none show ?thesis by blast
qed

theorem impute_CSCORE_left_missing_counterexample:
  "map_sum id (\<lambda>t. map CSCORE_B (rows t)) (impute ex_alone) = Inr [None, Some 700, Some 600] \<and>
   map_sum id (\<lambda>t. map OCLTV (rows t)) (impute ex_alone) = Inr [Some 39, Some 80, None] \<and>
   map_sum id (\<lambda>t. map DTI (rows t)) (impute ex_alone) = Inr [Some 30, Some 30, Some 30]"
  by code_simp

theorem impute_DTI_complete_witness:
  "wf_frame ex_alone \<and>
   DTI (rows ex_alone ! 0) \<noteq> None \<and>
   CSCORE_B (rows ex_alone ! 0) = None \<and>
   bucket_values ex_alone ''CSCORE'' CSCORE_B 0 = [] \<and>
   (\<exists>t'. impute ex_alone = Inr t' \<and> length (rows t') = length (rows ex_alone) \<and>
         CSCORE_B (rows t' ! 0) = None \<and> (\<forall>r \<in> set (rows t'). DTI r \<noteq> None)) \<and>
   map_sum id (\<lambda>t. map DTI (rows t)) (impute ex_alone) = Inr [Some 30, Some 30, Some 30]"
proof -
  have w: "wf_frame ex_alone" by code_simp
  have i: "0 < length (rows ex_alone)" by code_simp
  have a: "DTI (rows ex_alone ! 0) \<noteq> None" by code_simp
  have m: "rows ex_alone ! 0 \<in> set (rows ex_alone)" by code_simp
  have c: "CSCORE_B (rows ex_alone ! 0) = None" by code_simp
  have b: "bucket_values ex_alone ''CSCORE'' CSCORE_B 0 = []" by code_simp
  have v: "map_sum id (\<lambda>t. map DTI (rows t)) (impute ex_alone) = Inr [Some 30, Some 30, Some 30]"
    by code_simp
  from a m have h: "\<exists>r \<in> set (rows ex_alone). DTI r \<noteq> None" by blast
  from impute_DTI_complete [of ex_alone] obtain t1 t2 t3 t' where
      all: "fill_CSCORE ex_alone = Inr t1 \<and> fill_DTI t1 = Inr t2 \<and> fill_OCLTV t2 = Inr t3 \<and>
      impute ex_alone = Inr t' \<and> length (rows t') = length (rows ex_alone) \<and>
      (\<forall>i < length (rows ex_alone).
         CSCORE_B (rows t' ! i) = CSCORE_B (rows t1 ! i) \<and>
         OCLTV (rows t' ! i) = OCLTV (rows t3 ! i) \<and>
         (CSCORE_B (rows ex_alone ! i) = None \<and> bucket_values ex_alone ''CSCORE'' CSCORE_B i = []
            \<longrightarrow> CSCORE_B (rows t' ! i) = None) \<and>
         (OCLTV (rows t2 ! i) = None \<and> bucket_values t2 ''OCLTV'' OCLTV i = []
            \<longrightarrow> OCLTV (rows t' ! i) = None) \<and>
         (DTI (rows t3 ! i) \<noteq> None \<longrightarrow> DTI (rows t' ! i) = DTI (rows t3 ! i)) \<and>
         (DTI (rows t3 ! i) = None \<and> present (map DTI (rows t3)) \<noteq> []
            \<longrightarrow> DTI (rows t' ! i) = Some (sum_list (present (map DTI (rows t3)))
                                           / of_nat (length (present (map DTI (rows t3))))))) \<and>
      ((\<exists>r \<in> set (rows ex_alone). DTI r \<noteq> None) \<longrightarrow> (\<forall>r \<in> set (rows t'). DTI r \<noteq> None)) \<and>
      ((\<forall>r \<in> set (rows ex_alone). DTI r = None) \<longrightarrow> (\<forall>r \<in> set (rows t'). DTI r = None))"
    by (elim exE)
  from all have r: "impute ex_alone = Inr t'" "length (rows t') = length (rows ex_alone)"
    by blast+
  from all i have cell: "CSCORE_B (rows ex_alone ! 0) = None \<and> bucket_values ex_alone ''CSCORE'' CSCORE_B 0 = []
            \<longrightarrow> CSCORE_B (rows t' ! 0) = None"
    by blast
  from all have dti: "(\<exists>r \<in> set (rows ex_alone). DTI r \<noteq> None) \<longrightarrow> (\<forall>r \<in> set (rows t'). DTI r \<noteq> None)"
    by blast
  from cell c b have "CSCORE_B (rows t' ! 0) = None" by blast
  moreover from dti h have "\<forall>r \<in> set (rows t'). DTI r \<noteq> None" by blast
  ultimately have "\<exists>t'. impute ex_alone = Inr t' \<and> length (rows t') = length (rows ex_alone) \<and>
         CSCORE_B (rows t' ! 0) = None \<and> (\<forall>r \<in> set (rows t'). DTI r \<noteq> None)"
    using r by blast
  with w a c b v show ?thesis by blast
qed

end
